theory Spec2Isabelle
  imports Main
begin

section \<open>Python strings\<close>

text \<open>
  The generator works on Python \<open>str\<close> values. They are modelled as \<open>string\<close>
  (lists of 8-bit characters) holding ASCII text: the case conversions and the character
  classes below are the ASCII part of Python's \<open>str.lower\<close>, \<open>str.upper\<close>,
  \<open>str.isspace\<close> and of the classes \<open>\s\<close>, \<open>\w\<close>, \<open>\d\<close> of the
  \<open>re\<close> module. Characters above code 127 are left alone by the conversions and
  belong to no class; the model says nothing about non-ASCII input.
\<close>

definition is_upper :: "char \<Rightarrow> bool" where
  "is_upper c = (65 \<le> (of_char c :: nat) \<and> (of_char c :: nat) \<le> 90)"

definition is_lower :: "char \<Rightarrow> bool" where
  "is_lower c = (97 \<le> (of_char c :: nat) \<and> (of_char c :: nat) \<le> 122)"

definition is_digit :: "char \<Rightarrow> bool" where
  "is_digit c = (48 \<le> (of_char c :: nat) \<and> (of_char c :: nat) \<le> 57)"

definition lower_char :: "char \<Rightarrow> char" where
  "lower_char c = (if is_upper c then char_of ((of_char c :: nat) + 32) else c)"

definition upper_char :: "char \<Rightarrow> char" where
  "upper_char c = (if is_lower c then char_of ((of_char c :: nat) - 32) else c)"

definition lower :: "string \<Rightarrow> string" where
  "lower s = map lower_char s"

definition upper :: "string \<Rightarrow> string" where
  "upper s = map upper_char s"

text \<open>
  Whitespace as \<open>str.isspace\<close>, \<open>str.strip\<close> and \<open>\s\<close> see it in the ASCII
  range: tab, line feed, vertical tab, form feed, carriage return, the four separators
  \<open>0x1C\<close> to \<open>0x1F\<close>, and the space.
\<close>

definition isspace :: "char \<Rightarrow> bool" where
  "isspace c = (let n = (of_char c :: nat) in (9 \<le> n \<and> n \<le> 13) \<or> (28 \<le> n \<and> n \<le> 32))"

definition is_word :: "char \<Rightarrow> bool" where
  "is_word c = (is_upper c \<or> is_lower c \<or> is_digit c \<or> c = CHR ''_'')"

definition strip :: "string \<Rightarrow> string" where
  "strip s = rev (dropWhile isspace (rev (dropWhile isspace s)))"

definition endswith :: "string \<Rightarrow> string \<Rightarrow> bool" where
  "endswith s suffix = (length suffix \<le> length s \<and> drop (length s - length suffix) s = suffix)"

text \<open>\<open>s.replace(old, new)\<close> for a single character \<open>old\<close>.\<close>

definition replace_char :: "string \<Rightarrow> char \<Rightarrow> string \<Rightarrow> string" where
  "replace_char s old new = concat (map (\<lambda>c. if c = old then new else [c]) s)"

text \<open>
  \<open>s.find(sub)\<close> and \<open>s.rfind(sub)\<close>: the lowest and the highest index at which
  \<open>sub\<close> starts in \<open>s\<close>, and \<open>-1\<close> when it occurs nowhere.
\<close>

fun find_index :: "string \<Rightarrow> string \<Rightarrow> nat option" where
  "find_index [] sub = (if sub = [] then Some 0 else None)"
| "find_index (c # cs) sub =
     (if take (length sub) (c # cs) = sub then Some 0
      else map_option Suc (find_index cs sub))"

fun rfind_index :: "string \<Rightarrow> string \<Rightarrow> nat option" where
  "rfind_index [] sub = (if sub = [] then Some 0 else None)"
| "rfind_index (c # cs) sub =
     (case rfind_index cs sub of
        Some i \<Rightarrow> Some (Suc i)
      | None \<Rightarrow> if take (length sub) (c # cs) = sub then Some 0 else None)"

definition find :: "string \<Rightarrow> string \<Rightarrow> int" where
  "find s sub = (case find_index s sub of None \<Rightarrow> - 1 | Some i \<Rightarrow> int i)"

definition rfind :: "string \<Rightarrow> string \<Rightarrow> int" where
  "rfind s sub = (case rfind_index s sub of None \<Rightarrow> - 1 | Some i \<Rightarrow> int i)"

text \<open>
  The slice \<open>s[lo:hi]\<close> for bounds that are not negative (the only ones the
  generator computes): empty when \<open>hi \<le> lo\<close>, cut at the end of the string.
\<close>

definition slice :: "string \<Rightarrow> int \<Rightarrow> int \<Rightarrow> string" where
  "slice s lo hi = take (nat hi - nat lo) (drop (nat lo) s)"

text \<open>\<open>str(x)\<close> as an f-string applies it to a value that is a string or \<open>None\<close>.\<close>

definition py_str :: "string option \<Rightarrow> string" where
  "py_str v = (case v of None \<Rightarrow> ''None'' | Some s \<Rightarrow> s)"

text \<open>The truth value of a string or \<open>None\<close>: false for \<open>None\<close> and for the empty string.\<close>

definition truthy :: "string option \<Rightarrow> bool" where
  "truthy v = (case v of None \<Rightarrow> False | Some s \<Rightarrow> s \<noteq> [])"


section \<open>Constants of the module\<close>

definition T :: string where
  "T = ''    ''"

definition TT :: string where
  "TT = T @ T"

definition sql_java_type_mapping :: "(string \<times> string) list" where
  "sql_java_type_mapping =
     [(''varchar'', ''String''),
      (''datetime'', ''LocalDateTime''),
      (''timestamp'', ''LocalDateTime''),
      (''int'', ''Integer''),
      (''smallint'', ''Integer''),
      (''tinyint'', ''Integer''),
      (''short'', ''Integer''),
      (''bigint'', ''Long''),
      (''decimal'', ''BigDecimal''),
      (''char'', ''String''),
      (''text'', ''String''),
      (''json'', ''String'')]"


section \<open>Exceptions\<close>

text \<open>
  The exceptions the module can end with. \<open>ValueError\<close> is the one it raises itself and
  carries its message; \<open>IndexError\<close>, \<open>KeyError\<close>, \<open>TypeError\<close> and
  \<open>AttributeError\<close> come from indexing a row or a list, from a dictionary lookup, and
  from using \<open>None\<close> where a string is needed; \<open>DatabaseError\<close> stands for whatever
  the database driver raises from \<open>cursor.execute\<close>.
\<close>

datatype error =
    ValueError string
  | IndexError
  | KeyError string
  | TypeError
  | AttributeError
  | DatabaseError string


section \<open>Identifier helpers\<close>

definition first_char_lower :: "string \<Rightarrow> string" where
  "first_char_lower s = lower (take 1 s) @ drop 1 s"

definition first_char_upper :: "string \<Rightarrow> string" where
  "first_char_upper s = upper (take 1 s) @ drop 1 s"

text \<open>
  \<open>to_camel_case\<close> uses three things of Python's \<open>str\<close>: \<open>s.lower()\<close>,
  \<open>ci.upper()\<close> on a string of one character, and the underscore. The function is
  modelled once for any type of characters and any such conversions, which are its
  parameters \<open>str_lower\<close>, \<open>str_upper\<close> and \<open>underscore\<close>: Python's own
  conversions, under which a character may become several (the sharp s upper-cased is
  \<open>SS\<close>), are one choice of them. The loop runs over the indices of the lowercased
  string, with its two variables \<open>is_prev_uc\<close> and \<open>ccs\<close>.
\<close>

fun to_camel_case_loop ::
  "('c list \<Rightarrow> 'c list) \<Rightarrow> 'c \<Rightarrow> 'c list \<Rightarrow> bool \<Rightarrow> 'c list \<Rightarrow> 'c list" where
  "to_camel_case_loop str_upper underscore [] is_prev_uc ccs = ccs"
| "to_camel_case_loop str_upper underscore (ci # rest) is_prev_uc ccs =
     (if ci = underscore then to_camel_case_loop str_upper underscore rest True ccs
      else if is_prev_uc
           then to_camel_case_loop str_upper underscore rest False (ccs @ str_upper [ci])
      else to_camel_case_loop str_upper underscore rest is_prev_uc (ccs @ [ci]))"

definition to_camel_case_with ::
  "('c list \<Rightarrow> 'c list) \<Rightarrow> ('c list \<Rightarrow> 'c list) \<Rightarrow> 'c \<Rightarrow> 'c list \<Rightarrow> 'c list" where
  "to_camel_case_with str_lower str_upper underscore s =
     to_camel_case_loop str_upper underscore (str_lower s) False []"

text \<open>The function on ASCII text, as the rest of the generator is modelled.\<close>

definition to_camel_case :: "string \<Rightarrow> string" where
  "to_camel_case s = to_camel_case_with lower upper (CHR ''_'') s"

text \<open>
  The scan as the specification words it, written without an accumulator: an underscore
  is dropped and raises the flag; another character is emitted, upper-cased when the flag
  is up, and lowers the flag.
\<close>

fun camel_scan :: "('c list \<Rightarrow> 'c list) \<Rightarrow> 'c \<Rightarrow> bool \<Rightarrow> 'c list \<Rightarrow> 'c list" where
  "camel_scan str_upper underscore capitalize_next [] = []"
| "camel_scan str_upper underscore capitalize_next (c # cs) =
     (if c = underscore then camel_scan str_upper underscore True cs
      else (if capitalize_next then str_upper [c] else [c])
           @ camel_scan str_upper underscore False cs)"


section \<open>Type mapper\<close>

text \<open>
  \<open>re.match("^\s*(\w+)\(\d+\)\s*$", sql_type)\<close>, giving group 1 of the match. The
  classes that follow one another in the pattern are disjoint, so the match is found
  without backtracking: skip the spaces, take the longest run of word characters, expect
  an opening parenthesis, the longest run of digits, a closing parenthesis, and nothing
  but spaces up to the end.
\<close>

definition re_match_sql_type :: "string \<Rightarrow> string option" where
  "re_match_sql_type sql_type =
     (let s1 = dropWhile isspace sql_type;
          w = takeWhile is_word s1;
          s2 = dropWhile is_word s1
      in if w = [] then None
         else (case s2 of
                 [] \<Rightarrow> None
               | c # s3 \<Rightarrow>
                   if c \<noteq> CHR ''('' then None
                   else (let d = takeWhile is_digit s3;
                             s4 = dropWhile is_digit s3
                         in if d = [] then None
                            else (case s4 of
                                    [] \<Rightarrow> None
                                  | c' # s5 \<Rightarrow>
                                      if c' \<noteq> CHR '')'' then None
                                      else if list_all isspace s5 then Some w
                                      else None))))"

definition extract_sql_type :: "string \<Rightarrow> string" where
  "extract_sql_type sql_type =
     (case re_match_sql_type sql_type of None \<Rightarrow> sql_type | Some m1 \<Rightarrow> m1)"

definition to_java_type :: "string \<Rightarrow> error + string" where
  "to_java_type sql_type =
     (let sql_type = lower sql_type
      in case map_of sql_java_type_mapping sql_type of
           None \<Rightarrow> Inl (ValueError (''Unable to find corresponding java type for '' @ sql_type))
         | Some java_type \<Rightarrow> Inr java_type)"


section \<open>Rows, cursor and command-line arguments\<close>

text \<open>
  A cell of a result row is a string or \<open>None\<close>; a row is the tuple of its cells. A
  cursor is what \<open>cursor.execute(query)\<close> followed by \<open>cursor.fetchall()\<close> gives
  for each query text: the rows, or the exception the driver raises.
\<close>

type_synonym cell = "string option"

type_synonym row = "cell list"

type_synonym cursor = "string \<Rightarrow> error + row list"

text \<open>Indexing a tuple or a list with a constant index: out of range raises.\<close>

definition getitem :: "'a list \<Rightarrow> nat \<Rightarrow> error + 'a" where
  "getitem xs i = (if i < length xs then Inr (xs ! i) else Inl IndexError)"

text \<open>The namespace \<open>parse_args\<close> returns, one field per option.\<close>

record args =
  user :: string
  database :: string
  author :: string
  password :: string
  host :: string
  table :: "string option"
  excl :: "string option"
  output_arg :: "string option"
  extends :: "string option"
  mybatis :: bool
  lambok :: bool


section \<open>Fields and tables\<close>

record SQLField =
  sql_field_name :: string
  sql_type :: string
  comment :: cell
  java_type :: string
  java_field_name :: string

text \<open>
  \<open>SQLField.__init__\<close>. The field name is a cell of a row (\<open>None.replace\<close> raises);
  the type is the string \<open>extract_sql_type\<close> returned.
\<close>

definition SQLField_init :: "cell \<Rightarrow> string \<Rightarrow> cell \<Rightarrow> error + SQLField" where
  "SQLField_init field_name sql_type' comment' =
     (case field_name of
        None \<Rightarrow> Inl AttributeError
      | Some field_name \<Rightarrow>
          (let name = replace_char field_name (CHR 0x60) ''''
           in case to_java_type sql_type' of
                Inl e \<Rightarrow> Inl e
              | Inr jt \<Rightarrow>
                  Inr \<lparr>sql_field_name = name, sql_type = sql_type', comment = comment',
                       java_type = jt, java_field_name = to_camel_case name\<rparr>))"

record SQLTable =
  table_name :: string
  table_comment :: string
  fields_of :: "SQLField list"
  java_type_set :: "string set"

fun java_type_set_loop :: "SQLField list \<Rightarrow> string set \<Rightarrow> string set" where
  "java_type_set_loop [] acc = acc"
| "java_type_set_loop (f # fs) acc = java_type_set_loop fs (insert (java_type f) acc)"

definition SQLTable_init :: "string \<Rightarrow> cell \<Rightarrow> SQLField list \<Rightarrow> SQLTable" where
  "SQLTable_init table_name' table_comment' fields' =
     \<lparr>table_name = table_name',
      table_comment = (case table_comment' of None \<Rightarrow> '''' | Some c \<Rightarrow> c),
      fields_of = fields',
      java_type_set = java_type_set_loop fields' {}\<rparr>"

definition is_type_used :: "SQLTable \<Rightarrow> string \<Rightarrow> bool" where
  "is_type_used self jt = (jt \<in> java_type_set self)"

definition supply_java_class_name :: "SQLTable \<Rightarrow> string" where
  "supply_java_class_name self = first_char_upper (to_camel_case (table_name self))"


section \<open>Schema reader\<close>

text \<open>The first loop of \<open>parseSqlTable\<close>: one field per row of \<open>DESC\<close>, appended in order.\<close>

fun parse_rows :: "row list \<Rightarrow> SQLField list \<Rightarrow> error + SQLField list" where
  "parse_rows [] fields' = Inr fields'"
| "parse_rows (r # rl) fields' =
     (case getitem r 0 of
        Inl e \<Rightarrow> Inl e
      | Inr r0 \<Rightarrow>
          (case getitem r 1 of
             Inl e \<Rightarrow> Inl e
           | Inr r1 \<Rightarrow>
               (case r1 of
                  None \<Rightarrow> Inl TypeError
                | Some ty \<Rightarrow>
                    (case SQLField_init r0 (extract_sql_type ty) (Some '''') of
                       Inl e \<Rightarrow> Inl e
                     | Inr f \<Rightarrow> parse_rows rl (fields' @ [f])))))"

fun column_info_loop :: "row list \<Rightarrow> (cell \<rightharpoonup> cell) \<Rightarrow> error + (cell \<rightharpoonup> cell)" where
  "column_info_loop [] m = Inr m"
| "column_info_loop (row # r) m =
     (case getitem row 0 of
        Inl e \<Rightarrow> Inl e
      | Inr k \<Rightarrow>
          (case getitem row 1 of
             Inl e \<Rightarrow> Inl e
           | Inr v \<Rightarrow> column_info_loop r (m(k \<mapsto> v))))"

definition fetch_column_info :: "cursor \<Rightarrow> string \<Rightarrow> error + (cell \<rightharpoonup> cell)" where
  "fetch_column_info cursor table' =
     (case cursor (''SELECT column_name, column_comment FROM information_schema.columns WHERE TABLE_NAME = '' @ [CHR 0x27] @ table' @ [CHR 0x27]) of
        Inl e \<Rightarrow> Inl e
      | Inr r \<Rightarrow> column_info_loop r Map.empty)"

definition fetch_table_comment :: "cursor \<Rightarrow> string \<Rightarrow> error + cell" where
  "fetch_table_comment cursor table' =
     (case cursor (''SELECT table_comment FROM information_schema.tables WHERE TABLE_NAME = '' @ [CHR 0x27] @ table' @ [CHR 0x27]) of
        Inl e \<Rightarrow> Inl e
      | Inr r \<Rightarrow>
          (case getitem r 0 of
             Inl e \<Rightarrow> Inl e
           | Inr r0 \<Rightarrow> getitem r0 0))"

text \<open>
  The second loop of \<open>parseSqlTable\<close>: every field gets the comment stored under its name,
  and a name the dictionary does not have raises \<open>KeyError\<close>.
\<close>

fun set_comments :: "(cell \<rightharpoonup> cell) \<Rightarrow> SQLField list \<Rightarrow> error + SQLField list" where
  "set_comments ci [] = Inr []"
| "set_comments ci (f # fs) =
     (case ci (Some (sql_field_name f)) of
        None \<Rightarrow> Inl (KeyError (sql_field_name f))
      | Some c \<Rightarrow>
          (case set_comments ci fs of
             Inl e \<Rightarrow> Inl e
           | Inr fs' \<Rightarrow> Inr (f\<lparr>comment := c\<rparr> # fs')))"

definition parseSqlTable :: "cursor \<Rightarrow> string \<Rightarrow> args \<Rightarrow> error + SQLTable" where
  "parseSqlTable cursor table' args' =
     (case cursor (''DESC '' @ table') of
        Inl e \<Rightarrow> Inl e
      | Inr rl \<Rightarrow>
          (case parse_rows rl [] of
             Inl e \<Rightarrow> Inl e
           | Inr fields' \<Rightarrow>
               (case fetch_column_info cursor table' of
                  Inl e \<Rightarrow> Inl e
                | Inr ci \<Rightarrow>
                    (case set_comments ci fields' of
                       Inl e \<Rightarrow> Inl e
                     | Inr fields'' \<Rightarrow>
                         (case fetch_table_comment cursor table' of
                            Inl e \<Rightarrow> Inl e
                          | Inr table_comment' \<Rightarrow>
                              Inr (SQLTable_init table' table_comment' fields''))))))"


section \<open>Class renderer\<close>

text \<open>
  The loop over the fields that writes, for each one, the doc comment, the annotation
  when the mybatis-plus feature is on, and the declaration. \<open>pystuff.str_matches\<close> is
  a function of another package; the renderer takes it as the parameter
  \<open>str_matches\<close>.
\<close>

fun fields_loop ::
  "(string \<Rightarrow> string \<Rightarrow> bool) \<Rightarrow> bool \<Rightarrow> SQLField list \<Rightarrow> string \<Rightarrow> string" where
  "fields_loop str_matches mbp_ft [] s = s"
| "fields_loop str_matches mbp_ft (f # fs) s =
     (let s = s @ T @ ''/** '' @ py_str (comment f) @ '' */\<newline>'';
          s = (if mbp_ft then
                 (if str_matches (sql_field_name f) ''id''
                  then s @ T @ ''@TableId(type = IdType.AUTO)\<newline>''
                  else s @ T @ ''@TableField(\"'' @ sql_field_name f @ ''\")\<newline>'')
               else s);
          s = s @ T @ ''private '' @ java_type f @ '' '' @ java_field_name f @ '';\<newline>\<newline>''
      in fields_loop str_matches mbp_ft fs s)"

text \<open>The loop that writes the getter and the setter of each field.\<close>

fun accessors_loop :: "SQLField list \<Rightarrow> string \<Rightarrow> string" where
  "accessors_loop [] s = s"
| "accessors_loop (f # fs) s =
     (let us = first_char_upper (java_field_name f);
          s = s @ T @ ''public '' @ java_type f @ '' get'' @ us @ ''() {\<newline>'';
          s = s @ TT @ ''return this.'' @ java_field_name f @ ''\<newline>'';
          s = s @ T @ ''}\<newline>\<newline>'';
          s = s @ T @ ''public void set'' @ us @ ''('' @ java_type f @ '' '' @ java_field_name f @ '') {\<newline>'';
          s = s @ TT @ ''this.'' @ java_field_name f @ '' = '' @ java_field_name f @ '';\<newline>'';
          s = s @ T @ ''}\<newline>\<newline>''
      in accessors_loop fs s)"

definition generate_java_class ::
  "(string \<Rightarrow> string \<Rightarrow> bool) \<Rightarrow> SQLTable \<Rightarrow> args \<Rightarrow> string option \<Rightarrow> string option \<Rightarrow> string" where
  "generate_java_class str_matches table' ap spec_class_name package =
     (let mbp_ft = mybatis ap;
          lambok_ft = lambok ap;
          class_name = (case spec_class_name of
                          Some c \<Rightarrow> c
                        | None \<Rightarrow> supply_java_class_name table');
          s = '''';
          s = (case package of
                 Some p \<Rightarrow> s @ ''package '' @ p @ '';\<newline>''
               | None \<Rightarrow> s);
          s = (if is_type_used table' ''LocalDateTime''
               then s @ ''import java.time.*;\<newline>'' else s);
          s = (if is_type_used table' ''BigDecimal''
               then s @ ''import java.math.*;\<newline>'' else s);
          s = s @ ''\<newline>'';
          s = (if mbp_ft
               then s @ ''import com.baomidou.mybatisplus.annotation.*;\<newline>'' else s);
          s = s @ ''\<newline>'';
          s = (if lambok_ft then s @ ''import lombok.*;\<newline>'' else s);
          s = (if truthy (extends ap)
               then s @ ''import '' @ strip (py_str (extends ap)) @ '';\<newline>'' else s);
          s = s @ ''\<newline>'';
          s = s @ ''/**\<newline>'';
          s = s @ '' * '' @ table_comment table' @ ''\<newline>'';
          s = (if author ap \<noteq> ''''
               then s @ '' *\<newline>'' @ '' * @author '' @ author ap @ ''\<newline>'' else s);
          s = s @ '' */\<newline>'';
          s = (if lambok_ft then s @ ''@Data\<newline>'' else s);
          s = (if mbp_ft
               then s @ ''@TableName(value = \"'' @ table_name table' @ ''\", autoResultMap = true)\<newline>''
               else s);
          s = s @ ''public class '' @ class_name;
          s = (if truthy (extends ap)
               then (let canonical = py_str (extends ap);
                         r = rfind canonical ''.''
                     in s @ '' extends '' @ drop (nat (r + 1)) canonical)
               else s);
          s = s @ '' {\<newline>\<newline>'';
          s = fields_loop str_matches mbp_ft (fields_of table') s;
          s = (if \<not> lambok_ft then accessors_loop (fields_of table') s else s);
          s = s @ ''}\<newline>''
      in s)"


section \<open>Driver\<close>

definition guess_package :: "string \<Rightarrow> string option" where
  "guess_package path =
     (let hi = rfind path ''/''
      in if hi = - 1 then None
         else (let pat = ''src/main/java'';
                   lo = find path pat
               in if lo = - 1 then None
                  else Some (replace_char (slice path (lo + int (length pat) + 1) hi) (CHR ''/'') ''.'')))"

text \<open>
  The class name and the file name the driver settles on for one table (the statements
  between parsing the table and generating the class): the name between the last slash
  and the last \<open>.java\<close> of the output path when the path has one, the name supplied by
  the table otherwise.
\<close>

definition resolve_class_name :: "args \<Rightarrow> SQLTable \<Rightarrow> string \<times> string" where
  "resolve_class_name ap table' =
     (let (java_class_name, fn) =
            (if truthy (output_arg ap) then
               (let fn = py_str (output_arg ap);
                    hi = rfind fn ''.java''
                in if hi > - 1 then
                     (let lo = rfind fn ''/'';
                          lo = (if lo = - 1 then 0 else lo + 1)
                      in (Some (slice fn lo hi), fn))
                   else (None, if endswith fn ''/'' then fn else fn @ ''/''))
             else (None, ''''))
      in case java_class_name of
           None \<Rightarrow> (let java_class_name = supply_java_class_name table'
                    in (java_class_name, fn @ java_class_name @ ''.java''))
         | Some java_class_name \<Rightarrow> (java_class_name, fn))"

text \<open>
  The body of the driver's loop for one table: parse, settle the names, generate. The
  result is the file name and the text written to it; what is printed is left out.
\<close>

definition main_body ::
  "(string \<Rightarrow> string \<Rightarrow> bool) \<Rightarrow> cursor \<Rightarrow> args \<Rightarrow> string \<Rightarrow> error + (string \<times> string)" where
  "main_body str_matches cursor ap table_i =
     (case parseSqlTable cursor table_i ap of
        Inl e \<Rightarrow> Inl e
      | Inr table' \<Rightarrow>
          (let (java_class_name, fn) = resolve_class_name ap table';
               generated = generate_java_class str_matches table' ap (Some java_class_name) (guess_package fn)
           in Inr (fn, generated)))"


section \<open>The rendering steps in closed form\<close>

text \<open>
  The parts of the generated text as the specification lists them, each as a function of
  what it depends on. The renderer is shown below to produce their concatenation.
\<close>

definition package_section :: "string option \<Rightarrow> string" where
  "package_section package =
     (case package of Some p \<Rightarrow> ''package '' @ p @ '';\<newline>'' | None \<Rightarrow> '''')"

definition import_section :: "bool \<Rightarrow> bool \<Rightarrow> bool \<Rightarrow> bool \<Rightarrow> string option \<Rightarrow> string" where
  "import_section uses_date_time uses_decimal orm accessors_off base_class =
     (if uses_date_time then ''import java.time.*;\<newline>'' else '''')
     @ (if uses_decimal then ''import java.math.*;\<newline>'' else '''')
     @ ''\<newline>''
     @ (if orm then ''import com.baomidou.mybatisplus.annotation.*;\<newline>'' else '''')
     @ ''\<newline>''
     @ (if accessors_off then ''import lombok.*;\<newline>'' else '''')
     @ (if truthy base_class then ''import '' @ strip (py_str base_class) @ '';\<newline>'' else '''')
     @ ''\<newline>''"

definition doc_section :: "string \<Rightarrow> string \<Rightarrow> string" where
  "doc_section table_comment' author' =
     ''/**\<newline>''
     @ '' * '' @ table_comment' @ ''\<newline>''
     @ (if author' \<noteq> '''' then '' *\<newline>'' @ '' * @author '' @ author' @ ''\<newline>'' else '''')
     @ '' */\<newline>''"

definition annotation_section :: "bool \<Rightarrow> bool \<Rightarrow> string \<Rightarrow> string" where
  "annotation_section orm accessors_off table_name' =
     (if accessors_off then ''@Data\<newline>'' else '''')
     @ (if orm then ''@TableName(value = \"'' @ table_name' @ ''\", autoResultMap = true)\<newline>''
        else '''')"

definition declaration_section :: "string \<Rightarrow> string option \<Rightarrow> string" where
  "declaration_section class_name base_class =
     ''public class '' @ class_name
     @ (if truthy base_class
        then '' extends '' @ drop (nat (rfind (py_str base_class) ''.'' + 1)) (py_str base_class)
        else '''')
     @ '' {\<newline>\<newline>''"

definition field_comment :: "SQLField \<Rightarrow> string" where
  "field_comment f = T @ ''/** '' @ py_str (comment f) @ '' */\<newline>''"

definition field_annotation :: "(string \<Rightarrow> string \<Rightarrow> bool) \<Rightarrow> SQLField \<Rightarrow> string" where
  "field_annotation str_matches f =
     (if str_matches (sql_field_name f) ''id''
      then T @ ''@TableId(type = IdType.AUTO)\<newline>''
      else T @ ''@TableField(\"'' @ sql_field_name f @ ''\")\<newline>'')"

definition field_declaration :: "SQLField \<Rightarrow> string" where
  "field_declaration f =
     T @ ''private '' @ java_type f @ '' '' @ java_field_name f @ '';\<newline>\<newline>''"

definition field_block :: "(string \<Rightarrow> string \<Rightarrow> bool) \<Rightarrow> bool \<Rightarrow> SQLField \<Rightarrow> string" where
  "field_block str_matches orm f =
     field_comment f
     @ (if orm then field_annotation str_matches f else '''')
     @ field_declaration f"

definition getter :: "SQLField \<Rightarrow> string" where
  "getter f =
     T @ ''public '' @ java_type f @ '' get'' @ first_char_upper (java_field_name f) @ ''() {\<newline>''
     @ TT @ ''return this.'' @ java_field_name f @ ''\<newline>''
     @ T @ ''}\<newline>\<newline>''"

definition setter :: "SQLField \<Rightarrow> string" where
  "setter f =
     T @ ''public void set'' @ first_char_upper (java_field_name f)
       @ ''('' @ java_type f @ '' '' @ java_field_name f @ '') {\<newline>''
     @ TT @ ''this.'' @ java_field_name f @ '' = '' @ java_field_name f @ '';\<newline>''
     @ T @ ''}\<newline>\<newline>''"

definition class_name_of :: "string option \<Rightarrow> SQLTable \<Rightarrow> string" where
  "class_name_of spec_class_name table' =
     (case spec_class_name of Some c \<Rightarrow> c | None \<Rightarrow> supply_java_class_name table')"

definition header_section :: "SQLTable \<Rightarrow> args \<Rightarrow> string option \<Rightarrow> string" where
  "header_section table' ap package =
     package_section package
     @ import_section (is_type_used table' ''LocalDateTime'') (is_type_used table' ''BigDecimal'')
         (mybatis ap) (lambok ap) (extends ap)
     @ doc_section (table_comment table') (author ap)
     @ annotation_section (mybatis ap) (lambok ap) (table_name table')"

definition class_section ::
  "(string \<Rightarrow> string \<Rightarrow> bool) \<Rightarrow> SQLTable \<Rightarrow> args \<Rightarrow> string option \<Rightarrow> string" where
  "class_section str_matches table' ap spec_class_name =
     doc_section (table_comment table') (author ap)
     @ annotation_section (mybatis ap) (lambok ap) (table_name table')
     @ declaration_section (class_name_of spec_class_name table') (extends ap)
     @ concat (map (field_block str_matches (mybatis ap)) (fields_of table'))
     @ (if lambok ap then '''' else concat (map (\<lambda>f. getter f @ setter f) (fields_of table')))
     @ ''}\<newline>''"



section \<open>The generated text read line by line\<close>

text \<open>
  \<open>text.split('\n')\<close>: the lines of a text, the last one being what follows the last
  line feed. It is used to state what the generated text contains.
\<close>

fun split_loop :: "string \<Rightarrow> string \<Rightarrow> string list" where
  "split_loop cur [] = [cur]"
| "split_loop cur (c # cs) =
     (if c = CHR ''\<newline>'' then cur # split_loop [] cs else split_loop (cur @ [c]) cs)"

definition split_lines :: "string \<Rightarrow> string list" where
  "split_lines s = split_loop [] s"

definition unlines :: "string list \<Rightarrow> string" where
  "unlines ls = concat (map (\<lambda>l. l @ ''\<newline>'') ls)"

definition single_line :: "string \<Rightarrow> bool" where
  "single_line s = (CHR ''\<newline>'' \<notin> set s)"

text \<open>The lines of the generated text, in closed form.\<close>

definition annotation_line :: "(string \<Rightarrow> string \<Rightarrow> bool) \<Rightarrow> SQLField \<Rightarrow> string" where
  "annotation_line str_matches f =
     (if str_matches (sql_field_name f) ''id''
      then T @ ''@TableId(type = IdType.AUTO)''
      else T @ ''@TableField(\"'' @ sql_field_name f @ ''\")'')"

definition declaration_line :: "SQLField \<Rightarrow> string" where
  "declaration_line f = T @ ''private '' @ java_type f @ '' '' @ java_field_name f @ '';''"

definition field_lines :: "(string \<Rightarrow> string \<Rightarrow> bool) \<Rightarrow> bool \<Rightarrow> SQLField \<Rightarrow> string list" where
  "field_lines str_matches orm f =
     [T @ ''/** '' @ py_str (comment f) @ '' */'']
     @ (if orm then [annotation_line str_matches f] else [])
     @ [declaration_line f, '''']"

definition getter_line :: "SQLField \<Rightarrow> string" where
  "getter_line f =
     T @ ''public '' @ java_type f @ '' get'' @ first_char_upper (java_field_name f) @ ''() {''"

definition setter_line :: "SQLField \<Rightarrow> string" where
  "setter_line f =
     T @ ''public void set'' @ first_char_upper (java_field_name f)
       @ ''('' @ java_type f @ '' '' @ java_field_name f @ '') {''"

definition accessor_lines :: "SQLField \<Rightarrow> string list" where
  "accessor_lines f =
     [getter_line f, TT @ ''return this.'' @ java_field_name f, T @ ''}'', '''',
      setter_line f, TT @ ''this.'' @ java_field_name f @ '' = '' @ java_field_name f @ '';'',
      T @ ''}'', '''']"

definition table_name_line :: "string \<Rightarrow> string" where
  "table_name_line table_name' =
     ''@TableName(value = \"'' @ table_name' @ ''\", autoResultMap = true)''"

definition class_line :: "string \<Rightarrow> string option \<Rightarrow> string" where
  "class_line class_name base_class =
     ''public class '' @ class_name
     @ (if truthy base_class
        then '' extends '' @ drop (nat (rfind (py_str base_class) ''.'' + 1)) (py_str base_class)
        else '''')
     @ '' {''"

definition import_lines :: "bool \<Rightarrow> bool \<Rightarrow> bool \<Rightarrow> bool \<Rightarrow> string option \<Rightarrow> string list" where
  "import_lines uses_date_time uses_decimal orm accessors_off base_class =
     (if uses_date_time then [''import java.time.*;''] else [])
     @ (if uses_decimal then [''import java.math.*;''] else [])
     @ ['''']
     @ (if orm then [''import com.baomidou.mybatisplus.annotation.*;''] else [])
     @ ['''']
     @ (if accessors_off then [''import lombok.*;''] else [])
     @ (if truthy base_class then [''import '' @ strip (py_str base_class) @ '';''] else [])
     @ ['''']"

definition doc_lines :: "string \<Rightarrow> string \<Rightarrow> string list" where
  "doc_lines table_comment' author' =
     [''/**'', '' * '' @ table_comment']
     @ (if author' \<noteq> '''' then ['' *'', '' * @author '' @ author'] else [])
     @ ['' */'']"

definition output_lines ::
  "(string \<Rightarrow> string \<Rightarrow> bool) \<Rightarrow> SQLTable \<Rightarrow> args \<Rightarrow> string option \<Rightarrow> string option \<Rightarrow> string list" where
  "output_lines str_matches table' ap spec_class_name package =
     (case package of Some p \<Rightarrow> [''package '' @ p @ '';''] | None \<Rightarrow> [])
     @ import_lines (is_type_used table' ''LocalDateTime'') (is_type_used table' ''BigDecimal'')
         (mybatis ap) (lambok ap) (extends ap)
     @ doc_lines (table_comment table') (author ap)
     @ (if lambok ap then [''@Data''] else [])
     @ (if mybatis ap then [table_name_line (table_name table')] else [])
     @ [class_line (class_name_of spec_class_name table') (extends ap), '''']
     @ concat (map (field_lines str_matches (mybatis ap)) (fields_of table'))
     @ (if lambok ap then [] else concat (map accessor_lines (fields_of table')))
     @ [''}'']"

text \<open>
  The strings handed to the renderer hold no line feed: the package, the class name, the
  base class, the author, the name and the comment of the table, and the name, the
  comment, the Java type and the Java name of every field.
\<close>

definition single_line_field :: "SQLField \<Rightarrow> bool" where
  "single_line_field f =
     (single_line (sql_field_name f) \<and> single_line (py_str (comment f))
      \<and> single_line (java_type f) \<and> single_line (java_field_name f))"

definition single_line_inputs :: "SQLTable \<Rightarrow> args \<Rightarrow> string option \<Rightarrow> string option \<Rightarrow> bool" where
  "single_line_inputs table' ap spec_class_name package =
     (single_line (case package of Some p \<Rightarrow> p | None \<Rightarrow> '''')
      \<and> single_line (class_name_of spec_class_name table')
      \<and> single_line (case extends ap of Some b \<Rightarrow> b | None \<Rightarrow> '''')
      \<and> single_line (author ap)
      \<and> single_line (table_name table')
      \<and> single_line (table_comment table')
      \<and> list_all single_line_field (fields_of table'))"

text \<open>Kinds of lines of the generated text, told apart by how the line starts.\<close>

definition is_import_line :: "string \<Rightarrow> bool" where
  "is_import_line l = (take 7 l = ''import '')"

definition is_annotation_line :: "string \<Rightarrow> bool" where
  "is_annotation_line l = (take 1 (dropWhile (\<lambda>c. c = CHR '' '') l) = ''@'')"

definition is_field_line :: "string \<Rightarrow> bool" where
  "is_field_line l = (take 12 l = ''    private '')"

definition is_method_line :: "string \<Rightarrow> bool" where
  "is_method_line l = (take 11 l = ''    public '')"



section \<open>Example data\<close>

text \<open>
  The table of the specification's examples, \<open>t_order\<close> with the columns \<open>id int\<close>,
  \<open>order_no varchar(64)\<close> and \<open>created_at datetime\<close> and no comments, as a database
  answers the three queries; a cursor whose every query returns no rows; the namespace
  of a run given only the required options and the table; and a stand-in for
  \<open>pystuff.str_matches\<close>, equality that ignores case.
\<close>

definition t_order_cursor :: cursor where
  "t_order_cursor query =
     (if take 5 query = ''DESC '' then
        Inr [[Some ''id'', Some ''int'', Some ''NO'', Some ''PRI'', None, Some ''auto_increment''],
             [Some ''order_no'', Some ''varchar(64)'', Some ''NO'', Some '''', None, Some ''''],
             [Some ''created_at'', Some ''datetime'', Some ''YES'', Some '''', None, Some '''']]
      else if take 19 query = ''SELECT column_name,'' then
        Inr [[Some ''id'', Some ''''], [Some ''order_no'', Some ''''], [Some ''created_at'', Some '''']]
      else Inr [[Some '''']])"

definition empty_cursor :: cursor where
  "empty_cursor query = Inr []"

definition example_args :: args where
  "example_args =
     \<lparr>user = ''root'', database = ''shop'', author = '''', password = '''', host = ''localhost'',
      table = Some ''t_order'', excl = None, output_arg = None, extends = None,
      mybatis = False, lambok = False\<rparr>"

definition example_str_matches :: "string \<Rightarrow> string \<Rightarrow> bool" where
  "example_str_matches t v = (lower t = lower v)"

definition t_order_fields :: "SQLField list" where
  "t_order_fields =
     [\<lparr>sql_field_name = ''id'', sql_type = ''int'', comment = Some '''',
       java_type = ''Integer'', java_field_name = ''id''\<rparr>,
      \<lparr>sql_field_name = ''order_no'', sql_type = ''varchar'', comment = Some '''',
       java_type = ''String'', java_field_name = ''orderNo''\<rparr>,
      \<lparr>sql_field_name = ''created_at'', sql_type = ''datetime'', comment = Some '''',
       java_type = ''LocalDateTime'', java_field_name = ''createdAt''\<rparr>]"

definition t_order_table :: SQLTable where
  "t_order_table = SQLTable_init ''t_order'' (Some '''') t_order_fields"

definition orm_args :: args where
  "orm_args = example_args\<lparr>mybatis := True\<rparr>"

definition lombok_args :: args where
  "lombok_args = example_args\<lparr>lambok := True\<rparr>"

text \<open>Runs given an output file, and an output directory.\<close>

definition path_args :: args where
  "path_args = example_args\<lparr>output_arg := Some ''/w/src/main/java/com/shop/Order.java''\<rparr>"

definition dir_args :: args where
  "dir_args = example_args\<lparr>output_arg := Some ''out''\<rparr>"


section \<open>Facts about characters\<close>

lemmas char_class_defs = is_upper_def is_lower_def is_digit_def isspace_def is_word_def

lemmas char_eval = char_class_defs lower_char_def upper_char_def lower_def upper_def char_of_eq_iff


section \<open>Identifier helpers\<close>

lemma to_camel_case_loop_scan:
  "to_camel_case_loop str_upper underscore s flag ccs =
     ccs @ camel_scan str_upper underscore flag s"
  by (induction s arbitrary: flag ccs) simp_all

lemma upper_char_underscore: "upper_char c = CHR ''_'' \<longleftrightarrow> c = CHR ''_''"
  by (auto simp: upper_char_def is_lower_def char_of_eq_iff take_bit_eq_mod)

lemma lower_char_underscore: "lower_char c = CHR ''_'' \<longleftrightarrow> c = CHR ''_''"
  by (auto simp: lower_char_def is_upper_def char_of_eq_iff take_bit_eq_mod)

lemma camel_scan_no_underscore:
  assumes "\<And>c. c \<noteq> underscore \<Longrightarrow> underscore \<notin> set (str_upper [c])"
  shows "underscore \<notin> set (camel_scan str_upper underscore flag s)"
  using assms by (induction s arbitrary: flag) auto

text \<open>
  C10. The identifier helpers are total functions on strings: the first character is taken
  with the slices \<open>s[0:1]\<close> and \<open>s[1:]\<close>, which are empty on the empty string, and
  the loop of \<open>to_camel_case\<close> runs zero times there. So each of them returns the empty
  string on the empty string, and on any other string the two first-character helpers
  change the case of the first character and keep the rest.
\<close>

theorem identifier_helpers_empty:
  "first_char_upper '''' = '''' \<and> first_char_lower '''' = '''' \<and> to_camel_case '''' = ''''
   \<and> first_char_upper (c # cs) = upper_char c # cs
   \<and> first_char_lower (c # cs) = lower_char c # cs"
  by (simp add: first_char_upper_def first_char_lower_def to_camel_case_def
      to_camel_case_with_def lower_def upper_def)

text \<open>
  C2. For every string, of whatever characters, and whatever the conversions
  \<open>str.lower\<close> and \<open>str.upper\<close> do to it, \<open>to_camel_case\<close> lowercases its argument
  and then scans the result character by character: an underscore is dropped and raises
  the capitalize-next flag, any other character is emitted, upper-cased when the flag is
  up, and lowers the flag. When upper-casing a character other than the underscore never
  yields an underscore, the result has no underscore. On ASCII text \<open>user_id\<close> gives
  \<open>userId\<close>, \<open>id\<close> gives \<open>id\<close> and \<open>ORDER_NUM\<close> gives \<open>orderNum\<close>.
\<close>

theorem to_camel_case_scan:
  "to_camel_case_with str_lower str_upper underscore s =
     camel_scan str_upper underscore False (str_lower s)
   \<and> ((\<forall>c. c \<noteq> underscore \<longrightarrow> underscore \<notin> set (str_upper [c])) \<longrightarrow>
        underscore \<notin> set (to_camel_case_with str_lower str_upper underscore s))
   \<and> to_camel_case ''user_id'' = ''userId''
   \<and> to_camel_case ''id'' = ''id''
   \<and> to_camel_case ''ORDER_NUM'' = ''orderNum''"
proof -
  have scan: "to_camel_case_with str_lower str_upper underscore s =
      camel_scan str_upper underscore False (str_lower s)"
    by (simp add: to_camel_case_with_def to_camel_case_loop_scan)
  have drop: "(\<forall>c. c \<noteq> underscore \<longrightarrow> underscore \<notin> set (str_upper [c])) \<longrightarrow>
      underscore \<notin> set (to_camel_case_with str_lower str_upper underscore s)"
    unfolding scan by (intro impI camel_scan_no_underscore) blast
  have "to_camel_case ''user_id'' = ''userId''"
    by (simp add: to_camel_case_def to_camel_case_with_def char_eval)
  moreover have "to_camel_case ''id'' = ''id''"
    by (simp add: to_camel_case_def to_camel_case_with_def char_eval)
  moreover have "to_camel_case ''ORDER_NUM'' = ''orderNum''"
    by (simp add: to_camel_case_def to_camel_case_with_def char_eval)
  ultimately show ?thesis
    using scan drop by blast
qed

text \<open>
  A name with leading, doubled and trailing underscores, under the ASCII conversions.
\<close>

theorem to_camel_case_scan_witness:
  "CHR ''_'' \<notin> set (to_camel_case_with lower upper (CHR ''_'') ''__user__id_'')
   \<and> to_camel_case_with lower upper (CHR ''_'') ''__user__id_'' = ''UserId''"
proof -
  have h: "\<forall>c. c \<noteq> CHR ''_'' \<longrightarrow> CHR ''_'' \<notin> set (upper [c])"
    by (simp add: upper_def upper_char_underscore eq_commute[of "CHR ''_''"])
  note w = to_camel_case_scan[of lower upper "CHR ''_''" "''__user__id_''"]
  have 1: "CHR ''_'' \<notin> set (to_camel_case_with lower upper (CHR ''_'') ''__user__id_'')"
    using w h by blast
  have "camel_scan upper (CHR ''_'') False (lower ''__user__id_'') = ''UserId''"
    by (simp add: char_eval)
  then have 2: "to_camel_case_with lower upper (CHR ''_'') ''__user__id_'' = ''UserId''"
    using w by simp
  from 1 2 show ?thesis by blast
qed


section \<open>Searching a string\<close>







section \<open>Type mapper\<close>

text \<open>
  The matcher agrees with the pattern read as a language: it returns a word exactly for
  the strings made of spaces, that word, a parenthesised run of digits, and spaces.
\<close>

lemma word_not_space: "is_word c \<Longrightarrow> \<not> isspace c"
  by (auto simp: char_class_defs Let_def)

lemma paren_classes:
  "\<not> is_word (CHR ''('')" "\<not> is_digit (CHR '')'')" "\<not> isspace (CHR ''('')"
  by (simp_all add: char_class_defs)

lemma dropWhile_all: "list_all P xs \<Longrightarrow> ys = [] \<or> \<not> P (hd ys) \<Longrightarrow> dropWhile P (xs @ ys) = ys"
  by (induction xs) (cases ys; auto)+

lemma takeWhile_all: "list_all P xs \<Longrightarrow> ys = [] \<or> \<not> P (hd ys) \<Longrightarrow> takeWhile P (xs @ ys) = xs"
  by (induction xs) (cases ys; auto)+

lemma re_match_sql_type_matches:
  assumes "list_all isspace a" "w \<noteq> []" "list_all is_word w"
    "d \<noteq> []" "list_all is_digit d" "list_all isspace b"
  shows "re_match_sql_type (a @ w @ ''('' @ d @ '')'' @ b) = Some w"
proof -
  have hw: "\<not> isspace (hd w)"
    using assms(2,3) by (cases w) (auto simp: word_not_space)
  have 1: "dropWhile isspace (a @ w @ ''('' @ d @ '')'' @ b) = w @ ''('' @ d @ '')'' @ b"
    using assms(1,2) hw by (intro dropWhile_all) auto
  have 2: "takeWhile is_word (w @ ''('' @ d @ '')'' @ b) = w"
    using assms(3) by (intro takeWhile_all) (auto simp: paren_classes)
  have 3: "dropWhile is_word (w @ ''('' @ d @ '')'' @ b) = ''('' @ d @ '')'' @ b"
    using assms(3) by (intro dropWhile_all) (auto simp: paren_classes)
  have 4: "takeWhile is_digit (d @ '')'' @ b) = d"
    using assms(5) by (intro takeWhile_all) (auto simp: paren_classes)
  have 5: "dropWhile is_digit (d @ '')'' @ b) = '')'' @ b"
    using assms(5) by (intro dropWhile_all) (auto simp: paren_classes)
  show ?thesis
    unfolding re_match_sql_type_def 1 Let_def 2 3
    using assms(2,4,6) 4 5 by simp
qed

lemma re_match_sql_type_shape:
  assumes "re_match_sql_type s = Some w"
  shows "\<exists>a d b. s = a @ w @ ''('' @ d @ '')'' @ b \<and> list_all isspace a \<and> w \<noteq> [] \<and>
           list_all is_word w \<and> d \<noteq> [] \<and> list_all is_digit d \<and> list_all isspace b"
proof -
  define s1 where "s1 = dropWhile isspace s"
  define s2 where "s2 = dropWhile is_word s1"
  have w: "w = takeWhile is_word s1" and wne: "w \<noteq> []"
    using assms unfolding re_match_sql_type_def s1_def Let_def
    by (auto split: if_splits list.splits)
  obtain s3 where s2: "s2 = CHR ''('' # s3"
    using assms unfolding re_match_sql_type_def s1_def s2_def Let_def
    by (auto split: if_splits list.splits)
  define d where "d = takeWhile is_digit s3"
  have dne: "d \<noteq> []"
    using assms s2 unfolding re_match_sql_type_def s1_def s2_def d_def Let_def
    by (auto split: if_splits list.splits)
  obtain s5 where s4: "dropWhile is_digit s3 = CHR '')'' # s5" and s5: "list_all isspace s5"
    using assms s2 unfolding re_match_sql_type_def s1_def s2_def d_def Let_def
    by (auto split: if_splits list.splits)
  have "s = takeWhile isspace s @ s1" by (simp add: s1_def)
  also have "s1 = w @ s2" by (simp add: w s2_def)
  also have "s2 = ''('' @ (d @ dropWhile is_digit s3)" by (simp add: s2 d_def)
  finally have "s = takeWhile isspace s @ w @ ''('' @ d @ '')'' @ s5"
    by (simp add: s4)
  moreover have "list_all isspace (takeWhile isspace s)" "list_all is_word w" "list_all is_digit d"
    by (auto simp: list_all_iff w d_def dest: set_takeWhileD)
  ultimately show ?thesis using wne dne s5 by blast
qed

lemma lower_char_word: "is_word (lower_char c) \<longleftrightarrow> is_word c"
  by (auto simp: char_class_defs lower_char_def char_of_eq_iff take_bit_eq_mod)

lemma mapping_keys_word: "(k, jt) \<in> set sql_java_type_mapping \<Longrightarrow> list_all is_word k"
  by (auto simp: sql_java_type_mapping_def char_class_defs)

lemma mapping_lookup: "(k, jt) \<in> set sql_java_type_mapping \<Longrightarrow> map_of sql_java_type_mapping k = Some jt"
  by (rule map_of_is_SomeI) (simp_all add: sql_java_type_mapping_def)

lemma lower_word: "list_all is_word (lower w) \<longleftrightarrow> list_all is_word w"
  by (simp add: lower_def list_all_iff lower_char_word)

lemma extract_sql_type_bare:
  assumes "list_all is_word w"
  shows "extract_sql_type w = w"
proof (cases "re_match_sql_type w")
  case None
  then show ?thesis by (simp add: extract_sql_type_def)
next
  case (Some m)
  from re_match_sql_type_shape[OF Some] obtain a d b where "w = a @ m @ ''('' @ d @ '')'' @ b"
    by blast
  then have "CHR ''('' \<in> set w"
    by simp
  with assms show ?thesis
    by (auto simp: list_all_iff paren_classes)
qed

lemma resolve_supported:
  assumes "(k, jt) \<in> set sql_java_type_mapping" "lower w = k"
    "list_all isspace a" "d \<noteq> []" "list_all is_digit d" "list_all isspace b"
  shows "to_java_type (extract_sql_type w) = Inr jt"
    and "to_java_type (extract_sql_type (a @ w @ ''('' @ d @ '')'' @ b)) = Inr jt"
proof -
  have ww: "list_all is_word w"
    using mapping_keys_word[OF assms(1)] assms(2) lower_word by blast
  have "k \<noteq> []"
    using assms(1) by (auto simp: sql_java_type_mapping_def)
  then have wne: "w \<noteq> []"
    using assms(2) by (auto simp: lower_def)
  have l: "map_of sql_java_type_mapping (lower w) = Some jt"
    using mapping_lookup[OF assms(1)] assms(2) by simp
  have e: "extract_sql_type (a @ w @ ''('' @ d @ '')'' @ b) = w"
    by (simp only: extract_sql_type_def option.case
        re_match_sql_type_matches[OF assms(3) wne ww assms(4,5,6)])
  show "to_java_type (extract_sql_type w) = Inr jt"
    by (simp only: extract_sql_type_bare[OF ww] to_java_type_def Let_def l option.case)
  show "to_java_type (extract_sql_type (a @ w @ ''('' @ d @ '')'' @ b)) = Inr jt"
    by (simp only: e to_java_type_def Let_def l option.case)
qed

lemma resolve_unknown:
  assumes "lower (extract_sql_type s) \<notin> fst ` set sql_java_type_mapping"
  shows "to_java_type (extract_sql_type s) =
    Inl (ValueError (''Unable to find corresponding java type for '' @ lower (extract_sql_type s)))"
proof -
  have "map_of sql_java_type_mapping (lower (extract_sql_type s)) = None"
    using assms by (simp only: map_of_eq_None_iff not_False_eq_True)
  then show ?thesis
    by (simp only: to_java_type_def Let_def option.case)
qed

text \<open>
  C1. A \<open>DECIMAL\<close> column is described with precision and scale, as in
  \<open>decimal(10,2)\<close>. The pattern of \<open>extract_sql_type\<close> admits digits only between
  the parentheses, so the suffix stays, the lookup of \<open>decimal(10,2)\<close> finds nothing and
  the resolution raises, although \<open>decimal\<close> is in the mapping.
\<close>

theorem decimal_with_scale_unresolved:
  "to_java_type (extract_sql_type ''decimal(10,2)'') =
     Inl (ValueError ''Unable to find corresponding java type for decimal(10,2)'')"
  by (simp add: to_java_type_def extract_sql_type_def re_match_sql_type_def
      sql_java_type_mapping_def char_eval)


section \<open>Schema reader\<close>

lemma parse_rows_names:
  "parse_rows rl acc = Inr fs \<Longrightarrow>
   map (\<lambda>f. Some (sql_field_name f)) fs =
     map (\<lambda>f. Some (sql_field_name f)) acc
     @ map (\<lambda>r. map_option (\<lambda>n. replace_char n (CHR 0x60) '''') (r ! 0)) rl"
proof (induction rl arbitrary: acc)
  case Nil
  then show ?case by simp
next
  case (Cons r rl)
  from Cons.prems obtain f where
    f: "SQLField_init (r ! 0) (extract_sql_type (the (r ! 1))) (Some '''') = Inr f"
    and rest: "parse_rows rl (acc @ [f]) = Inr fs"
    by (auto simp: getitem_def split: if_splits sum.splits option.splits)
  from f have "Some (sql_field_name f) = map_option (\<lambda>n. replace_char n (CHR 0x60) '''') (r ! 0)"
    by (auto simp: SQLField_init_def Let_def split: option.splits sum.splits)
  with Cons.IH[OF rest] show ?case by simp
qed

lemma set_comments_names:
  "set_comments ci fs = Inr fs' \<Longrightarrow> map sql_field_name fs' = map sql_field_name fs"
  by (induction fs arbitrary: fs') (auto split: option.splits sum.splits)

lemma parseSqlTable_fields:
  assumes "parseSqlTable cursor tn a = Inr t" "cursor (''DESC '' @ tn) = Inr rl"
  shows "map (\<lambda>f. Some (sql_field_name f)) (fields_of t) =
           map (\<lambda>r. map_option (\<lambda>n. replace_char n (CHR 0x60) '''') (r ! 0)) rl"
proof -
  from assms obtain fs ci fs' c where
    1: "parse_rows rl [] = Inr fs" and 2: "set_comments ci fs = Inr fs'"
    and t: "t = SQLTable_init tn c fs'"
    by (auto simp: parseSqlTable_def split: sum.splits)
  have "map (\<lambda>f. Some (sql_field_name f)) fs' = map Some (map sql_field_name fs')"
    by simp
  also have "\<dots> = map (\<lambda>f. Some (sql_field_name f)) fs"
    by (simp add: set_comments_names[OF 2])
  finally show ?thesis
    using parse_rows_names[OF 1] by (simp add: t SQLTable_init_def)
qed


section \<open>Class renderer\<close>

lemma fields_loop_eq:
  "fields_loop sm orm fs s = s @ concat (map (field_block sm orm) fs)"
  by (induction fs arbitrary: s)
     (simp_all add: field_block_def field_comment_def field_annotation_def field_declaration_def)

lemma accessors_loop_eq:
  "accessors_loop fs s = s @ concat (map (\<lambda>f. getter f @ setter f) fs)"
  by (induction fs arbitrary: s) (simp_all add: getter_def setter_def Let_def)

lemma if_append: "(if b then s @ x else s) = s @ (if b then x else [])"
  by simp

lemma if_neg: "(if \<not> b then x else y) = (if b then y else x)"
  by simp

lemma case_append:
  "(case p of Some v \<Rightarrow> s @ g v | None \<Rightarrow> s) = s @ (case p of Some v \<Rightarrow> g v | None \<Rightarrow> [])"
  by (cases p) simp_all

text \<open>The renderer produces the rendering steps of the specification, in their order.\<close>

lemma generate_java_class_layout:
  "generate_java_class sm t ap cn pkg =
     package_section pkg
     @ import_section (is_type_used t ''LocalDateTime'') (is_type_used t ''BigDecimal'')
         (mybatis ap) (lambok ap) (extends ap)
     @ doc_section (table_comment t) (author ap)
     @ annotation_section (mybatis ap) (lambok ap) (table_name t)
     @ declaration_section (class_name_of cn t) (extends ap)
     @ concat (map (field_block sm (mybatis ap)) (fields_of t))
     @ (if lambok ap then '''' else concat (map (\<lambda>f. getter f @ setter f) (fields_of t)))
     @ ''}\<newline>''"
  unfolding generate_java_class_def Let_def fields_loop_eq accessors_loop_eq
    package_section_def import_section_def doc_section_def annotation_section_def
    declaration_section_def class_name_of_def if_append case_append
  by (simp only: append_assoc append_Nil if_neg)

lemma java_type_set_loop_eq: "java_type_set_loop fs acc = acc \<union> java_type ` set fs"
  by (induction fs arbitrary: acc) auto

lemma is_type_used_init:
  "is_type_used (SQLTable_init n c fs) jt \<longleftrightarrow> (\<exists>f \<in> set fs. java_type f = jt)"
  by (auto simp: is_type_used_def SQLTable_init_def java_type_set_loop_eq)


section \<open>The lines of the generated text\<close>

lemma split_loop_line:
  "single_line a \<Longrightarrow> split_loop cur (a @ CHR ''\<newline>'' # b) = (cur @ a) # split_loop [] b"
  by (induction a arbitrary: cur) (auto simp: single_line_def)

lemma split_loop_unlines:
  "list_all single_line ls \<Longrightarrow> split_loop [] (unlines ls @ r) = ls @ split_loop [] r"
proof (induction ls)
  case Nil
  then show ?case by (simp add: unlines_def)
next
  case (Cons l ls)
  have "split_loop [] (unlines (l # ls) @ r) = split_loop [] (l @ CHR ''\<newline>'' # (unlines ls @ r))"
    by (simp add: unlines_def)
  also have "\<dots> = l # split_loop [] (unlines ls @ r)"
    using Cons.prems by (simp add: split_loop_line)
  finally show ?case using Cons by simp
qed

lemma split_lines_unlines:
  "list_all single_line ls \<Longrightarrow> split_lines (unlines ls) = ls @ ['''']"
  using split_loop_unlines[of ls "[]"] by (simp add: split_lines_def)

lemma unlines_append: "unlines (xs @ ys) = unlines xs @ unlines ys"
  by (simp add: unlines_def)

lemma unlines_Cons: "unlines (l # ls) = l @ ''\<newline>'' @ unlines ls"
  by (simp add: unlines_def)

lemma unlines_Nil: "unlines [] = []"
  by (simp add: unlines_def)

lemma unlines_if: "unlines (if b then xs else ys) = (if b then unlines xs else unlines ys)"
  by simp

lemma unlines_case:
  "unlines (case p of Some v \<Rightarrow> g v | None \<Rightarrow> n) = (case p of Some v \<Rightarrow> unlines (g v) | None \<Rightarrow> unlines n)"
  by (cases p) simp_all

lemma unlines_field_lines: "unlines (field_lines sm orm f) = field_block sm orm f"
  by (simp add: field_lines_def field_block_def field_comment_def field_annotation_def
      annotation_line_def declaration_line_def field_declaration_def unlines_def)

lemma unlines_accessor_lines: "unlines (accessor_lines f) = getter f @ setter f"
  by (simp add: accessor_lines_def getter_def setter_def getter_line_def setter_line_def unlines_def)

lemma unlines_concat_map:
  "(\<And>x. unlines (f x) = g x) \<Longrightarrow> unlines (concat (map f xs)) = concat (map g xs)"
  by (induction xs) (simp_all add: unlines_append unlines_Nil)

lemma unlines_import_lines: "unlines (import_lines a b c d e) = import_section a b c d e"
  unfolding import_lines_def import_section_def unlines_append unlines_if unlines_Cons unlines_Nil
  by (simp only: append_assoc append_Nil append_Cons append_Nil2)

lemma unlines_doc_lines: "unlines (doc_lines c a) = doc_section c a"
  unfolding doc_lines_def doc_section_def unlines_append unlines_if unlines_Cons unlines_Nil
  by (simp only: append_assoc append_Nil append_Cons append_Nil2)

lemma generate_java_class_lines:
  "generate_java_class sm t ap cn pkg = unlines (output_lines sm t ap cn pkg)"
proof -
  have 1: "unlines (case pkg of Some p \<Rightarrow> [''package '' @ p @ '';''] | None \<Rightarrow> []) = package_section pkg"
    by (cases pkg) (simp_all add: package_section_def unlines_def)
  have 2: "unlines ((if lambok ap then [''@Data''] else [])
             @ (if mybatis ap then [table_name_line (table_name t)] else []))
           = annotation_section (mybatis ap) (lambok ap) (table_name t)"
    by (simp add: annotation_section_def table_name_line_def unlines_def)
  have 3: "unlines [class_line c (extends ap), ''''] = declaration_section c (extends ap)" for c
    by (simp add: class_line_def declaration_section_def unlines_def)
  have 4: "unlines (if lambok ap then [] else concat (map accessor_lines (fields_of t)))
           = (if lambok ap then '''' else concat (map (\<lambda>f. getter f @ setter f) (fields_of t)))"
    by (simp add: unlines_Nil unlines_concat_map[of accessor_lines, OF unlines_accessor_lines])
  have 5: "unlines (concat (map (field_lines sm (mybatis ap)) (fields_of t)))
           = concat (map (field_block sm (mybatis ap)) (fields_of t))"
    by (rule unlines_concat_map) (rule unlines_field_lines)
  have 6: "unlines [''}''] = ''}\<newline>''"
    by (simp add: unlines_def)
  have "unlines (output_lines sm t ap cn pkg) =
      unlines (case pkg of Some p \<Rightarrow> [''package '' @ p @ '';''] | None \<Rightarrow> [])
      @ unlines (import_lines (is_type_used t ''LocalDateTime'') (is_type_used t ''BigDecimal'')
         (mybatis ap) (lambok ap) (extends ap))
      @ unlines (doc_lines (table_comment t) (author ap))
      @ unlines ((if lambok ap then [''@Data''] else [])
             @ (if mybatis ap then [table_name_line (table_name t)] else []))
      @ unlines [class_line (class_name_of cn t) (extends ap), '''']
      @ unlines (concat (map (field_lines sm (mybatis ap)) (fields_of t)))
      @ unlines (if lambok ap then [] else concat (map accessor_lines (fields_of t)))
      @ unlines [''}'']"
    by (simp only: output_lines_def unlines_append append_assoc)
  then show ?thesis
    by (simp only: 1 2 3 4 5 6 unlines_import_lines unlines_doc_lines generate_java_class_layout)
qed

lemma single_line_append [simp]: "single_line (a @ b) \<longleftrightarrow> single_line a \<and> single_line b"
  by (auto simp: single_line_def)

lemma single_line_Cons [simp]: "single_line (c # s) \<longleftrightarrow> c \<noteq> CHR ''\<newline>'' \<and> single_line s"
  by (auto simp: single_line_def)

lemma single_line_Nil [simp]: "single_line []"
  by (simp add: single_line_def)

lemma single_line_subset: "set a \<subseteq> set b \<Longrightarrow> single_line b \<Longrightarrow> single_line a"
  by (auto simp: single_line_def)

lemma single_line_strip: "single_line s \<Longrightarrow> single_line (strip s)"
proof (rule single_line_subset)
  show "set (strip s) \<subseteq> set s"
  proof
    fix x assume "x \<in> set (strip s)"
    then have "x \<in> set (dropWhile isspace (rev (dropWhile isspace s)))"
      by (simp add: strip_def)
    then have "x \<in> set (rev (dropWhile isspace s))"
      by (rule set_dropWhileD)
    then have "x \<in> set (dropWhile isspace s)"
      by simp
    then show "x \<in> set s"
      by (rule set_dropWhileD)
  qed
qed

lemma single_line_drop: "single_line s \<Longrightarrow> single_line (drop n s)"
  by (rule single_line_subset) (rule set_drop_subset)

lemma upper_char_newline: "upper_char c = CHR ''\<newline>'' \<longleftrightarrow> c = CHR ''\<newline>''"
  by (auto simp: upper_char_def is_lower_def char_of_eq_iff take_bit_eq_mod)

lemma single_line_first_char_upper: "single_line s \<Longrightarrow> single_line (first_char_upper s)"
  by (cases s) (auto simp: first_char_upper_def upper_def upper_char_newline)

lemma single_line_T [simp]: "single_line T" "single_line TT"
  by (simp_all add: T_def TT_def)

lemma single_line_field_lines:
  "single_line_field f \<Longrightarrow> list_all single_line (field_lines sm orm f)"
  by (simp add: single_line_field_def field_lines_def annotation_line_def declaration_line_def)

lemma single_line_accessor_lines:
  "single_line_field f \<Longrightarrow> list_all single_line (accessor_lines f)"
  by (simp add: single_line_field_def accessor_lines_def getter_line_def setter_line_def
      single_line_first_char_upper)

lemma list_all_concat_map:
  "list_all P xs \<Longrightarrow> (\<And>x. P x \<Longrightarrow> list_all Q (f x)) \<Longrightarrow> list_all Q (concat (map f xs))"
  by (induction xs) simp_all

lemma single_line_output_lines:
  assumes "single_line_inputs t ap cn pkg"
  shows "list_all single_line (output_lines sm t ap cn pkg)"
proof -
  have fs: "list_all single_line_field (fields_of t)"
    using assms by (simp add: single_line_inputs_def)
  have 1: "list_all single_line (case pkg of Some p \<Rightarrow> [''package '' @ p @ '';''] | None \<Rightarrow> [])"
    using assms by (cases pkg) (simp_all add: single_line_inputs_def)
  have 2: "list_all single_line (import_lines a b c d (extends ap))" for a b c d
    using assms
    by (cases "extends ap") (simp_all add: single_line_inputs_def import_lines_def py_str_def
        truthy_def single_line_strip)
  have 3: "list_all single_line (doc_lines (table_comment t) (author ap))"
    using assms by (simp add: single_line_inputs_def doc_lines_def)
  have 4: "list_all single_line ((if lambok ap then [''@Data''] else [])
             @ (if mybatis ap then [table_name_line (table_name t)] else []))"
    using assms by (simp add: single_line_inputs_def table_name_line_def)
  have 5: "list_all single_line [class_line (class_name_of cn t) (extends ap), '''']"
    using assms
    by (cases "extends ap") (simp_all add: single_line_inputs_def class_line_def py_str_def
        truthy_def single_line_drop)
  have 6: "list_all single_line (concat (map (field_lines sm (mybatis ap)) (fields_of t)))"
    using fs by (rule list_all_concat_map) (rule single_line_field_lines)
  have 7: "list_all single_line (if lambok ap then [] else concat (map accessor_lines (fields_of t)))"
    using list_all_concat_map[OF fs single_line_accessor_lines] by simp
  show ?thesis
    unfolding output_lines_def list_all_append
    using 1 2 3 4 5 6 7 by simp
qed

lemma split_lines_generate:
  assumes "single_line_inputs t ap cn pkg"
  shows "split_lines (generate_java_class sm t ap cn pkg) = output_lines sm t ap cn pkg @ ['''']"
  by (simp only: generate_java_class_lines split_lines_unlines[OF single_line_output_lines[OF assms]])

lemma filter_concat_map_Nil:
  "(\<And>x. filter P (f x) = []) \<Longrightarrow> filter P (concat (map f xs)) = []"
  by (induction xs) simp_all

lemma filter_concat_map:
  "(\<And>x. filter P (f x) = g x) \<Longrightarrow> filter P (concat (map f xs)) = concat (map g xs)"
  by (induction xs) simp_all

lemmas line_defs = field_lines_def accessor_lines_def annotation_line_def declaration_line_def
  getter_line_def setter_line_def table_name_line_def class_line_def doc_lines_def T_def TT_def

lemma import_field_lines: "filter is_import_line (field_lines sm orm f) = []"
  by (simp add: is_import_line_def line_defs)

lemma import_accessor_lines: "filter is_import_line (accessor_lines f) = []"
  by (simp add: is_import_line_def line_defs)

lemma annotation_field_lines:
  "filter is_annotation_line (field_lines sm orm f) = (if orm then [annotation_line sm f] else [])"
  by (simp add: is_annotation_line_def line_defs)

lemma annotation_accessor_lines: "filter is_annotation_line (accessor_lines f) = []"
  by (simp add: is_annotation_line_def line_defs)

lemma field_field_lines: "filter is_field_line (field_lines sm orm f) = [declaration_line f]"
  by (simp add: is_field_line_def line_defs)

lemma field_accessor_lines: "filter is_field_line (accessor_lines f) = []"
  by (simp add: is_field_line_def line_defs)

lemma method_field_lines: "filter is_method_line (field_lines sm orm f) = []"
  by (simp add: is_method_line_def line_defs)

lemma method_accessor_lines:
  "filter is_method_line (accessor_lines f) = [getter_line f, setter_line f]"
  by (simp add: is_method_line_def line_defs)

lemma filter_output_lines:
  "filter P (output_lines sm t ap cn pkg) =
     filter P (case pkg of Some p \<Rightarrow> [''package '' @ p @ '';''] | None \<Rightarrow> [])
     @ filter P (import_lines (is_type_used t ''LocalDateTime'') (is_type_used t ''BigDecimal'')
         (mybatis ap) (lambok ap) (extends ap))
     @ filter P (doc_lines (table_comment t) (author ap))
     @ filter P (if lambok ap then [''@Data''] else [])
     @ filter P (if mybatis ap then [table_name_line (table_name t)] else [])
     @ filter P [class_line (class_name_of cn t) (extends ap), '''']
     @ filter P (concat (map (field_lines sm (mybatis ap)) (fields_of t)))
     @ filter P (if lambok ap then [] else concat (map accessor_lines (fields_of t)))
     @ filter P [''}'']"
  by (simp only: output_lines_def filter_append append_assoc)

lemma import_lines_of_output:
  "filter is_import_line (output_lines sm t ap cn pkg) =
     (if is_type_used t ''LocalDateTime'' then [''import java.time.*;''] else [])
     @ (if is_type_used t ''BigDecimal'' then [''import java.math.*;''] else [])
     @ (if mybatis ap then [''import com.baomidou.mybatisplus.annotation.*;''] else [])
     @ (if lambok ap then [''import lombok.*;''] else [])
     @ (if truthy (extends ap) then [''import '' @ strip (py_str (extends ap)) @ '';''] else [])"
proof -
  have 1: "filter is_import_line (case pkg of Some p \<Rightarrow> [''package '' @ p @ '';''] | None \<Rightarrow> []) = []"
    by (cases pkg) (simp_all add: is_import_line_def)
  have 2: "filter is_import_line (import_lines a b c d e) =
      (if a then [''import java.time.*;''] else [])
      @ (if b then [''import java.math.*;''] else [])
      @ (if c then [''import com.baomidou.mybatisplus.annotation.*;''] else [])
      @ (if d then [''import lombok.*;''] else [])
      @ (if truthy e then [''import '' @ strip (py_str e) @ '';''] else [])" for a b c d e
    by (simp add: import_lines_def is_import_line_def)
  have 3: "filter is_import_line (doc_lines c a) = []" for c a
    by (simp add: doc_lines_def is_import_line_def)
  have 4: "filter is_import_line (if lambok ap then [''@Data''] else []) = []"
    "filter is_import_line (if mybatis ap then [table_name_line (table_name t)] else []) = []"
    "filter is_import_line [class_line (class_name_of cn t) (extends ap), ''''] = []"
    "filter is_import_line [''}''] = []"
    by (simp_all add: is_import_line_def table_name_line_def class_line_def)
  have 5: "filter is_import_line (concat (map (field_lines sm (mybatis ap)) (fields_of t))) = []"
    by (rule filter_concat_map_Nil) (rule import_field_lines)
  have 6: "filter is_import_line (if lambok ap then [] else concat (map accessor_lines (fields_of t))) = []"
    by (simp add: filter_concat_map_Nil[of is_import_line accessor_lines, OF import_accessor_lines])
  show ?thesis
    by (simp only: filter_output_lines 1 2 3 4 5 6 append_Nil append_Nil2)
qed

lemma annotation_lines_of_output:
  "filter is_annotation_line (output_lines sm t ap cn pkg) =
     (if lambok ap then [''@Data''] else [])
     @ (if mybatis ap
        then table_name_line (table_name t) # map (annotation_line sm) (fields_of t)
        else [])"
proof -
  have 1: "filter is_annotation_line (case pkg of Some p \<Rightarrow> [''package '' @ p @ '';''] | None \<Rightarrow> []) = []"
    by (cases pkg) (simp_all add: is_annotation_line_def)
  have 2: "filter is_annotation_line (import_lines a b c d e) = []" for a b c d e
    by (simp add: import_lines_def is_annotation_line_def)
  have 3: "filter is_annotation_line (doc_lines c a) = []" for c a
    by (simp add: doc_lines_def is_annotation_line_def)
  have 4: "filter is_annotation_line (if lambok ap then [''@Data''] else []) =
             (if lambok ap then [''@Data''] else [])"
    "filter is_annotation_line (if mybatis ap then [table_name_line (table_name t)] else []) =
             (if mybatis ap then [table_name_line (table_name t)] else [])"
    "filter is_annotation_line [class_line (class_name_of cn t) (extends ap), ''''] = []"
    "filter is_annotation_line [''}''] = []"
    by (simp_all add: is_annotation_line_def table_name_line_def class_line_def)
  have 5: "filter is_annotation_line (concat (map (field_lines sm (mybatis ap)) (fields_of t))) =
             (if mybatis ap then map (annotation_line sm) (fields_of t) else [])"
    by (simp add: filter_concat_map[of is_annotation_line "field_lines sm orm"
          "\<lambda>f. if orm then [annotation_line sm f] else []" for orm, OF annotation_field_lines])
  have 6: "filter is_annotation_line (if lambok ap then [] else concat (map accessor_lines (fields_of t))) = []"
    by (simp add: filter_concat_map_Nil[of is_annotation_line accessor_lines, OF annotation_accessor_lines])
  show ?thesis
    unfolding filter_output_lines 1 2 3 4 5 6 by simp
qed

lemma field_lines_of_output:
  "filter is_field_line (output_lines sm t ap cn pkg) = map declaration_line (fields_of t)"
proof -
  have 1: "filter is_field_line (case pkg of Some p \<Rightarrow> [''package '' @ p @ '';''] | None \<Rightarrow> []) = []"
    by (cases pkg) (simp_all add: is_field_line_def)
  have 2: "filter is_field_line (import_lines a b c d e) = []" for a b c d e
    by (simp add: import_lines_def is_field_line_def)
  have 3: "filter is_field_line (doc_lines c a) = []" for c a
    by (simp add: doc_lines_def is_field_line_def)
  have 4: "filter is_field_line (if lambok ap then [''@Data''] else []) = []"
    "filter is_field_line (if mybatis ap then [table_name_line (table_name t)] else []) = []"
    "filter is_field_line [class_line (class_name_of cn t) (extends ap), ''''] = []"
    "filter is_field_line [''}''] = []"
    by (simp_all add: is_field_line_def table_name_line_def class_line_def)
  have 5: "filter is_field_line (concat (map (field_lines sm (mybatis ap)) (fields_of t))) =
             map declaration_line (fields_of t)"
    by (simp add: filter_concat_map[of is_field_line "field_lines sm (mybatis ap)"
          "\<lambda>f. [declaration_line f]", OF field_field_lines])
  have 6: "filter is_field_line (if lambok ap then [] else concat (map accessor_lines (fields_of t))) = []"
    by (simp add: filter_concat_map_Nil[of is_field_line accessor_lines, OF field_accessor_lines])
  show ?thesis
    unfolding filter_output_lines 1 2 3 4 5 6 by simp
qed

lemma method_lines_of_output:
  "filter is_method_line (output_lines sm t ap cn pkg) =
     (if lambok ap then [] else concat (map (\<lambda>f. [getter_line f, setter_line f]) (fields_of t)))"
proof -
  have 1: "filter is_method_line (case pkg of Some p \<Rightarrow> [''package '' @ p @ '';''] | None \<Rightarrow> []) = []"
    by (cases pkg) (simp_all add: is_method_line_def)
  have 2: "filter is_method_line (import_lines a b c d e) = []" for a b c d e
    by (simp add: import_lines_def is_method_line_def)
  have 3: "filter is_method_line (doc_lines c a) = []" for c a
    by (simp add: doc_lines_def is_method_line_def)
  have 4: "filter is_method_line (if lambok ap then [''@Data''] else []) = []"
    "filter is_method_line (if mybatis ap then [table_name_line (table_name t)] else []) = []"
    "filter is_method_line [class_line (class_name_of cn t) (extends ap), ''''] = []"
    "filter is_method_line [''}''] = []"
    by (simp_all add: is_method_line_def table_name_line_def class_line_def)
  have 5: "filter is_method_line (concat (map (field_lines sm (mybatis ap)) (fields_of t))) = []"
    by (rule filter_concat_map_Nil) (rule method_field_lines)
  have 6: "filter is_method_line (if lambok ap then [] else concat (map accessor_lines (fields_of t))) =
      (if lambok ap then [] else concat (map (\<lambda>f. [getter_line f, setter_line f]) (fields_of t)))"
    by (simp add: filter_concat_map[of is_method_line accessor_lines
          "\<lambda>f. [getter_line f, setter_line f]", OF method_accessor_lines])
  show ?thesis
    unfolding filter_output_lines 1 2 3 4 5 6 by simp
qed





section \<open>Annotations, imports and the excluded-fields option\<close>

text \<open>
  C3. The text generated for any table and options, with the annotations written out.
  With the mybatis-plus flag set, the class declaration is preceded by the
  \<open>@TableName\<close> annotation carrying the table name as it is, and every field, in the
  order of the table, has between its doc comment and its declaration the
  \<open>@TableId\<close> annotation when \<open>str_matches\<close> accepts its column name as
  \<open>id\<close>, and the \<open>@TableField\<close> annotation carrying its column name otherwise.
  With the flag unset, nothing is written in any of these places. When the strings handed
  to the renderer hold no line feed, the lines of the generated text that start with
  \<open>@\<close> (after blanks) are therefore: \<open>@Data\<close> under the Lombok flag, and, under the
  mybatis-plus flag only, the \<open>@TableName\<close> line and one annotation line per field in
  the order of the fields.
\<close>

theorem orm_annotations:
  "generate_java_class sm t ap cn pkg =
     package_section pkg
     @ import_section (is_type_used t ''LocalDateTime'') (is_type_used t ''BigDecimal'')
         (mybatis ap) (lambok ap) (extends ap)
     @ doc_section (table_comment t) (author ap)
     @ (if lambok ap then ''@Data\<newline>'' else '''')
     @ (if mybatis ap
        then ''@TableName(value = \"'' @ table_name t @ ''\", autoResultMap = true)\<newline>''
        else '''')
     @ declaration_section (class_name_of cn t) (extends ap)
     @ concat (map (\<lambda>f. field_comment f
                         @ (if mybatis ap
                            then (if sm (sql_field_name f) ''id''
                                  then T @ ''@TableId(type = IdType.AUTO)\<newline>''
                                  else T @ ''@TableField(\"'' @ sql_field_name f @ ''\")\<newline>'')
                            else '''')
                         @ field_declaration f) (fields_of t))
     @ (if lambok ap then '''' else concat (map (\<lambda>f. getter f @ setter f) (fields_of t)))
     @ ''}\<newline>''
   \<and> (single_line_inputs t ap cn pkg \<longrightarrow>
        filter is_annotation_line (split_lines (generate_java_class sm t ap cn pkg)) =
          (if lambok ap then [''@Data''] else [])
          @ (if mybatis ap
             then (''@TableName(value = \"'' @ table_name t @ ''\", autoResultMap = true)'')
                  # map (\<lambda>f. if sm (sql_field_name f) ''id''
                            then T @ ''@TableId(type = IdType.AUTO)''
                            else T @ ''@TableField(\"'' @ sql_field_name f @ ''\")'') (fields_of t)
             else []))"
proof (intro conjI impI)
  show "generate_java_class sm t ap cn pkg =
     package_section pkg
     @ import_section (is_type_used t ''LocalDateTime'') (is_type_used t ''BigDecimal'')
         (mybatis ap) (lambok ap) (extends ap)
     @ doc_section (table_comment t) (author ap)
     @ (if lambok ap then ''@Data\<newline>'' else '''')
     @ (if mybatis ap
        then ''@TableName(value = \"'' @ table_name t @ ''\", autoResultMap = true)\<newline>''
        else '''')
     @ declaration_section (class_name_of cn t) (extends ap)
     @ concat (map (\<lambda>f. field_comment f
                         @ (if mybatis ap
                            then (if sm (sql_field_name f) ''id''
                                  then T @ ''@TableId(type = IdType.AUTO)\<newline>''
                                  else T @ ''@TableField(\"'' @ sql_field_name f @ ''\")\<newline>'')
                            else '''')
                         @ field_declaration f) (fields_of t))
     @ (if lambok ap then '''' else concat (map (\<lambda>f. getter f @ setter f) (fields_of t)))
     @ ''}\<newline>''"
    unfolding generate_java_class_layout annotation_section_def field_block_def field_annotation_def
    by (simp only: append_assoc)
next
  assume "single_line_inputs t ap cn pkg"
  then have "filter is_annotation_line (split_lines (generate_java_class sm t ap cn pkg)) =
      filter is_annotation_line (output_lines sm t ap cn pkg)"
    by (simp add: split_lines_generate is_annotation_line_def)
  then show "filter is_annotation_line (split_lines (generate_java_class sm t ap cn pkg)) =
          (if lambok ap then [''@Data''] else [])
          @ (if mybatis ap
             then (''@TableName(value = \"'' @ table_name t @ ''\", autoResultMap = true)'')
                  # map (\<lambda>f. if sm (sql_field_name f) ''id''
                            then T @ ''@TableId(type = IdType.AUTO)''
                            else T @ ''@TableField(\"'' @ sql_field_name f @ ''\")'') (fields_of t)
             else [])"
    by (simp add: annotation_lines_of_output table_name_line_def annotation_line_def if_distrib
        cong: if_cong)
qed

text \<open>
  The example table with the mybatis-plus flag set, and without it.
\<close>

theorem orm_annotations_witness:
  "single_line_inputs t_order_table orm_args None None
   \<and> filter is_annotation_line
         (split_lines (generate_java_class example_str_matches t_order_table orm_args None None)) =
       [''@TableName(value = \"t_order\", autoResultMap = true)'',
        ''    @TableId(type = IdType.AUTO)'',
        ''    @TableField(\"order_no\")'',
        ''    @TableField(\"created_at\")'']
   \<and> single_line_inputs t_order_table example_args None None
   \<and> filter is_annotation_line
         (split_lines (generate_java_class example_str_matches t_order_table example_args None None)) = []"
proof -
  have h1: "single_line_inputs t_order_table orm_args None None"
    by code_simp
  have h2: "single_line_inputs t_order_table example_args None None"
    by code_simp
  have 1: "filter is_annotation_line
         (split_lines (generate_java_class example_str_matches t_order_table orm_args None None)) =
       [''@TableName(value = \"t_order\", autoResultMap = true)'',
        ''    @TableId(type = IdType.AUTO)'',
        ''    @TableField(\"order_no\")'',
        ''    @TableField(\"created_at\")'']"
    by (rule trans[OF mp[OF conjunct2[OF orm_annotations] h1]]) code_simp
  have 2: "filter is_annotation_line
         (split_lines (generate_java_class example_str_matches t_order_table example_args None None)) = []"
    by (rule trans[OF mp[OF conjunct2[OF orm_annotations] h2]]) code_simp
  from h1 h2 1 2 show ?thesis by blast
qed

text \<open>
  C7. The import statements of the text generated for a table built from the fields
  \<open>fs\<close>: the date-time import is written exactly when some field has the Java type
  \<open>LocalDateTime\<close>, the decimal import exactly when some field has the Java type
  \<open>BigDecimal\<close>, the mybatis-plus import exactly when that flag is set, the Lombok
  import exactly when the Lombok flag is set (which is when no accessors are written),
  and the import of the base class exactly when one is given. What follows the imports is
  the doc comment and the class. When the strings handed to the renderer hold no line
  feed, the lines of the generated text that start with \<open>import\<close> are exactly these, in
  this order.
\<close>

theorem imports_by_use:
  "generate_java_class sm (SQLTable_init n c fs) ap cn pkg =
     package_section pkg
     @ (if \<exists>f \<in> set fs. java_type f = ''LocalDateTime''
        then ''import java.time.*;\<newline>'' else '''')
     @ (if \<exists>f \<in> set fs. java_type f = ''BigDecimal''
        then ''import java.math.*;\<newline>'' else '''')
     @ ''\<newline>''
     @ (if mybatis ap then ''import com.baomidou.mybatisplus.annotation.*;\<newline>'' else '''')
     @ ''\<newline>''
     @ (if lambok ap then ''import lombok.*;\<newline>'' else '''')
     @ (if truthy (extends ap) then ''import '' @ strip (py_str (extends ap)) @ '';\<newline>'' else '''')
     @ ''\<newline>''
     @ class_section sm (SQLTable_init n c fs) ap cn
   \<and> (single_line_inputs (SQLTable_init n c fs) ap cn pkg \<longrightarrow>
        filter is_import_line
          (split_lines (generate_java_class sm (SQLTable_init n c fs) ap cn pkg)) =
          (if \<exists>f \<in> set fs. java_type f = ''LocalDateTime'' then [''import java.time.*;''] else [])
          @ (if \<exists>f \<in> set fs. java_type f = ''BigDecimal'' then [''import java.math.*;''] else [])
          @ (if mybatis ap then [''import com.baomidou.mybatisplus.annotation.*;''] else [])
          @ (if lambok ap then [''import lombok.*;''] else [])
          @ (if truthy (extends ap) then [''import '' @ strip (py_str (extends ap)) @ '';''] else []))"
proof (intro conjI impI)
  show "generate_java_class sm (SQLTable_init n c fs) ap cn pkg =
     package_section pkg
     @ (if \<exists>f \<in> set fs. java_type f = ''LocalDateTime''
        then ''import java.time.*;\<newline>'' else '''')
     @ (if \<exists>f \<in> set fs. java_type f = ''BigDecimal''
        then ''import java.math.*;\<newline>'' else '''')
     @ ''\<newline>''
     @ (if mybatis ap then ''import com.baomidou.mybatisplus.annotation.*;\<newline>'' else '''')
     @ ''\<newline>''
     @ (if lambok ap then ''import lombok.*;\<newline>'' else '''')
     @ (if truthy (extends ap) then ''import '' @ strip (py_str (extends ap)) @ '';\<newline>'' else '''')
     @ ''\<newline>''
     @ class_section sm (SQLTable_init n c fs) ap cn"
    unfolding generate_java_class_layout import_section_def class_section_def is_type_used_init
    by (simp only: append_assoc)
next
  assume "single_line_inputs (SQLTable_init n c fs) ap cn pkg"
  then have "filter is_import_line
      (split_lines (generate_java_class sm (SQLTable_init n c fs) ap cn pkg)) =
      filter is_import_line (output_lines sm (SQLTable_init n c fs) ap cn pkg)"
    by (simp add: split_lines_generate is_import_line_def)
  then show "filter is_import_line
          (split_lines (generate_java_class sm (SQLTable_init n c fs) ap cn pkg)) =
          (if \<exists>f \<in> set fs. java_type f = ''LocalDateTime'' then [''import java.time.*;''] else [])
          @ (if \<exists>f \<in> set fs. java_type f = ''BigDecimal'' then [''import java.math.*;''] else [])
          @ (if mybatis ap then [''import com.baomidou.mybatisplus.annotation.*;''] else [])
          @ (if lambok ap then [''import lombok.*;''] else [])
          @ (if truthy (extends ap) then [''import '' @ strip (py_str (extends ap)) @ '';''] else [])"
    by (simp only: import_lines_of_output is_type_used_init)
qed

text \<open>
  The example table, whose only import is the date-time one.
\<close>

theorem imports_by_use_witness:
  "single_line_inputs (SQLTable_init ''t_order'' (Some '''') t_order_fields) example_args None None
   \<and> filter is_import_line
         (split_lines (generate_java_class example_str_matches
            (SQLTable_init ''t_order'' (Some '''') t_order_fields) example_args None None)) =
       [''import java.time.*;'']"
proof -
  have h: "single_line_inputs (SQLTable_init ''t_order'' (Some '''') t_order_fields) example_args None None"
    by code_simp
  have "filter is_import_line
         (split_lines (generate_java_class example_str_matches
            (SQLTable_init ''t_order'' (Some '''') t_order_fields) example_args None None)) =
       [''import java.time.*;'']"
    by (rule trans[OF mp[OF conjunct2[OF imports_by_use] h]]) code_simp
  with h show ?thesis by blast
qed

text \<open>
  C9. The excluded-fields option has no effect: two namespaces that differ only in
  \<open>excl\<close> give the same generated text for every table, the same result of reading
  the schema, and the same file name and text for a whole table run of the driver.
\<close>

theorem excluded_fields_unused:
  "generate_java_class sm t (ap\<lparr>excl := e\<rparr>) cn pkg = generate_java_class sm t ap cn pkg
   \<and> parseSqlTable cursor tn (ap\<lparr>excl := e\<rparr>) = parseSqlTable cursor tn ap
   \<and> main_body sm cursor (ap\<lparr>excl := e\<rparr>) tn = main_body sm cursor ap tn"
proof -
  have g: "generate_java_class sm t (ap\<lparr>excl := e\<rparr>) cn pkg = generate_java_class sm t ap cn pkg"
    for t cn pkg
    by (simp add: generate_java_class_layout)
  have p: "parseSqlTable cursor tn (ap\<lparr>excl := e\<rparr>) = parseSqlTable cursor tn ap"
    by (simp add: parseSqlTable_def)
  have r: "resolve_class_name (ap\<lparr>excl := e\<rparr>) t = resolve_class_name ap t" for t
    by (simp add: resolve_class_name_def)
  have "main_body sm cursor (ap\<lparr>excl := e\<rparr>) tn = main_body sm cursor ap tn"
    by (simp add: main_body_def p r g Let_def split: sum.split prod.split)
  with g p show ?thesis by blast
qed


section \<open>The example table, missing tables, field order and class names\<close>

lemma parse_t_order:
  "parseSqlTable t_order_cursor ''t_order'' example_args = Inr t_order_table"
  by code_simp

lemma desc_t_order:
  "t_order_cursor (''DESC '' @ ''t_order'') =
     Inr [[Some ''id'', Some ''int'', Some ''NO'', Some ''PRI'', None, Some ''auto_increment''],
          [Some ''order_no'', Some ''varchar(64)'', Some ''NO'', Some '''', None, Some ''''],
          [Some ''created_at'', Some ''datetime'', Some ''YES'', Some '''', None, Some '''']]"
  by (simp add: t_order_cursor_def)

text \<open>
  C8, as stated. With every schema query returning no rows, the reader ends with the
  \<open>IndexError\<close> of \<open>r[0]\<close> on the empty result of the table-comment query: the
  module has no error of its own for a missing table.
\<close>

theorem no_rows_index_error:
  "parseSqlTable empty_cursor ''t_missing'' example_args = Inl IndexError"
  by (simp add: parseSqlTable_def empty_cursor_def fetch_column_info_def
      fetch_table_comment_def getitem_def)

text \<open>
  C8, amended. When the schema queries for a table return no rows, the schema reader
  returns no table description, so no class is generated from one: it raises the
  \<open>IndexError\<close> of indexing the first row of the empty table-comment result.
\<close>

theorem no_rows_fails:
  assumes "cursor (''DESC '' @ tn) = Inr []"
    and "cursor (''SELECT column_name, column_comment FROM information_schema.columns WHERE TABLE_NAME = '' @ [CHR 0x27] @ tn @ [CHR 0x27]) = Inr []"
    and "cursor (''SELECT table_comment FROM information_schema.tables WHERE TABLE_NAME = '' @ [CHR 0x27] @ tn @ [CHR 0x27]) = Inr []"
  shows "parseSqlTable cursor tn a = Inl IndexError"
  using assms
  by (simp add: parseSqlTable_def fetch_column_info_def fetch_table_comment_def getitem_def)

theorem no_rows_fails_witness:
  "parseSqlTable empty_cursor ''t_order'' example_args = Inl IndexError"
  by (rule no_rows_fails) (simp_all add: empty_cursor_def)

text \<open>
  C5. For a table the schema reader returned, the fields are the rows of \<open>DESC\<close> in
  their order (each named by the first cell of its row, backticks removed), and the
  generated text has, after the class declaration, one block per field in that order,
  then, unless the Lombok flag suppresses the accessors, one getter and one setter per
  field in the same order, and then the closing brace; with the flag set the closing
  brace follows the field blocks at once. When the strings handed to the renderer hold no
  line feed, the lines that start a field declaration are those of the fields, in their
  order, and the lines that start a method are the getter and the setter of each field, in
  that order, or none at all under the Lombok flag.
\<close>

theorem field_order_and_accessors:
  assumes "parseSqlTable cursor tn a = Inr t" and "cursor (''DESC '' @ tn) = Inr rl"
  shows "map (\<lambda>f. Some (sql_field_name f)) (fields_of t) =
           map (\<lambda>r. map_option (\<lambda>n. replace_char n (CHR 0x60) '''') (r ! 0)) rl
         \<and> generate_java_class sm t ap cn pkg =
             header_section t ap pkg
             @ declaration_section (class_name_of cn t) (extends ap)
             @ concat (map (field_block sm (mybatis ap)) (fields_of t))
             @ (if lambok ap then ''''
                else concat (map (\<lambda>f. getter f @ setter f) (fields_of t)))
             @ ''}\<newline>''
         \<and> (single_line_inputs t ap cn pkg \<longrightarrow>
              filter is_field_line (split_lines (generate_java_class sm t ap cn pkg)) =
                map declaration_line (fields_of t)
              \<and> filter is_method_line (split_lines (generate_java_class sm t ap cn pkg)) =
                (if lambok ap then []
                 else concat (map (\<lambda>f. [getter_line f, setter_line f]) (fields_of t))))"
proof (intro conjI impI)
  show "map (\<lambda>f. Some (sql_field_name f)) (fields_of t) =
           map (\<lambda>r. map_option (\<lambda>n. replace_char n (CHR 0x60) '''') (r ! 0)) rl"
    by (rule parseSqlTable_fields[OF assms])
  show "generate_java_class sm t ap cn pkg =
             header_section t ap pkg
             @ declaration_section (class_name_of cn t) (extends ap)
             @ concat (map (field_block sm (mybatis ap)) (fields_of t))
             @ (if lambok ap then ''''
                else concat (map (\<lambda>f. getter f @ setter f) (fields_of t)))
             @ ''}\<newline>''"
    by (simp only: generate_java_class_layout header_section_def append_assoc)
next
  assume h: "single_line_inputs t ap cn pkg"
  show "filter is_field_line (split_lines (generate_java_class sm t ap cn pkg)) =
          map declaration_line (fields_of t)"
    by (simp add: split_lines_generate[OF h] field_lines_of_output is_field_line_def)
next
  assume h: "single_line_inputs t ap cn pkg"
  show "filter is_method_line (split_lines (generate_java_class sm t ap cn pkg)) =
          (if lambok ap then []
           else concat (map (\<lambda>f. [getter_line f, setter_line f]) (fields_of t)))"
    by (simp add: split_lines_generate[OF h] method_lines_of_output is_method_line_def)
qed

lemma t_order_text:
  "header_section t_order_table example_args None
   @ declaration_section (class_name_of None t_order_table) (extends example_args)
   @ concat (map (field_block example_str_matches (mybatis example_args)) (fields_of t_order_table))
   @ (if lambok example_args then ''''
      else concat (map (\<lambda>f. getter f @ setter f) (fields_of t_order_table)))
   @ ''}\<newline>'' =
   ''import java.time.*;\<newline>\<newline>\<newline>\<newline>/**\<newline> * \<newline> */\<newline>public class TOrder {\<newline>\<newline>''
   @ ''    /**  */\<newline>    private Integer id;\<newline>\<newline>''
   @ ''    /**  */\<newline>    private String orderNo;\<newline>\<newline>''
   @ ''    /**  */\<newline>    private LocalDateTime createdAt;\<newline>\<newline>''
   @ ''    public Integer getId() {\<newline>        return this.id\<newline>    }\<newline>\<newline>''
   @ ''    public void setId(Integer id) {\<newline>        this.id = id;\<newline>    }\<newline>\<newline>''
   @ ''    public String getOrderNo() {\<newline>        return this.orderNo\<newline>    }\<newline>\<newline>''
   @ ''    public void setOrderNo(String orderNo) {\<newline>        this.orderNo = orderNo;\<newline>    }\<newline>\<newline>''
   @ ''    public LocalDateTime getCreatedAt() {\<newline>        return this.createdAt\<newline>    }\<newline>\<newline>''
   @ ''    public void setCreatedAt(LocalDateTime createdAt) {\<newline>        this.createdAt = createdAt;\<newline>    }\<newline>\<newline>''
   @ ''}\<newline>''"
  by code_simp

text \<open>
  The example of the specification: \<open>t_order\<close> read from the database and rendered
  without annotations and with accessors, and rendered again under the Lombok flag.
\<close>

theorem field_order_and_accessors_witness:
  "parseSqlTable t_order_cursor ''t_order'' example_args = Inr t_order_table
   \<and> map (\<lambda>f. Some (sql_field_name f)) (fields_of t_order_table) =
       [Some ''id'', Some ''order_no'', Some ''created_at'']
   \<and> generate_java_class example_str_matches t_order_table example_args None None =
   ''import java.time.*;\<newline>\<newline>\<newline>\<newline>/**\<newline> * \<newline> */\<newline>public class TOrder {\<newline>\<newline>''
   @ ''    /**  */\<newline>    private Integer id;\<newline>\<newline>''
   @ ''    /**  */\<newline>    private String orderNo;\<newline>\<newline>''
   @ ''    /**  */\<newline>    private LocalDateTime createdAt;\<newline>\<newline>''
   @ ''    public Integer getId() {\<newline>        return this.id\<newline>    }\<newline>\<newline>''
   @ ''    public void setId(Integer id) {\<newline>        this.id = id;\<newline>    }\<newline>\<newline>''
   @ ''    public String getOrderNo() {\<newline>        return this.orderNo\<newline>    }\<newline>\<newline>''
   @ ''    public void setOrderNo(String orderNo) {\<newline>        this.orderNo = orderNo;\<newline>    }\<newline>\<newline>''
   @ ''    public LocalDateTime getCreatedAt() {\<newline>        return this.createdAt\<newline>    }\<newline>\<newline>''
   @ ''    public void setCreatedAt(LocalDateTime createdAt) {\<newline>        this.createdAt = createdAt;\<newline>    }\<newline>\<newline>''
   @ ''}\<newline>''
   \<and> single_line_inputs t_order_table example_args None None
   \<and> filter is_field_line
         (split_lines (generate_java_class example_str_matches t_order_table example_args None None)) =
       [''    private Integer id;'', ''    private String orderNo;'',
        ''    private LocalDateTime createdAt;'']
   \<and> filter is_method_line
         (split_lines (generate_java_class example_str_matches t_order_table example_args None None)) =
       [''    public Integer getId() {'', ''    public void setId(Integer id) {'',
        ''    public String getOrderNo() {'', ''    public void setOrderNo(String orderNo) {'',
        ''    public LocalDateTime getCreatedAt() {'',
        ''    public void setCreatedAt(LocalDateTime createdAt) {'']
   \<and> single_line_inputs t_order_table lombok_args None None
   \<and> filter is_method_line
         (split_lines (generate_java_class example_str_matches t_order_table lombok_args None None)) = []"
proof -
  note w = field_order_and_accessors[OF parse_t_order desc_t_order,
      where sm = example_str_matches and ap = example_args and cn = None and pkg = None]
  note wl = field_order_and_accessors[OF parse_t_order desc_t_order,
      where sm = example_str_matches and ap = lombok_args and cn = None and pkg = None]
  have names: "map (\<lambda>r. map_option (\<lambda>n. replace_char n (CHR 0x60) '''') (r ! 0))
      [[Some ''id'', Some ''int'', Some ''NO'', Some ''PRI'', None, Some ''auto_increment''],
       [Some ''order_no'', Some ''varchar(64)'', Some ''NO'', Some '''', None, Some ''''],
       [Some ''created_at'', Some ''datetime'', Some ''YES'', Some '''', None, Some '''']]
     = [Some ''id'', Some ''order_no'', Some ''created_at'']"
    by code_simp
  have h1: "single_line_inputs t_order_table example_args None None"
    by code_simp
  have h2: "single_line_inputs t_order_table lombok_args None None"
    by code_simp
  note l1 = mp[OF conjunct2[OF conjunct2[OF w]] h1]
  note l2 = mp[OF conjunct2[OF conjunct2[OF wl]] h2]
  have f: "filter is_field_line
         (split_lines (generate_java_class example_str_matches t_order_table example_args None None)) =
       [''    private Integer id;'', ''    private String orderNo;'',
        ''    private LocalDateTime createdAt;'']"
    by (rule trans[OF conjunct1[OF l1]]) code_simp
  have m: "filter is_method_line
         (split_lines (generate_java_class example_str_matches t_order_table example_args None None)) =
       [''    public Integer getId() {'', ''    public void setId(Integer id) {'',
        ''    public String getOrderNo() {'', ''    public void setOrderNo(String orderNo) {'',
        ''    public LocalDateTime getCreatedAt() {'',
        ''    public void setCreatedAt(LocalDateTime createdAt) {'']"
    by (rule trans[OF conjunct2[OF l1]]) code_simp
  have ml: "filter is_method_line
         (split_lines (generate_java_class example_str_matches t_order_table lombok_args None None)) = []"
    by (rule trans[OF conjunct2[OF l2]]) code_simp
  have a: "map (\<lambda>f. Some (sql_field_name f)) (fields_of t_order_table) =
       [Some ''id'', Some ''order_no'', Some ''created_at'']"
    using conjunct1[OF w] by (simp only: names)
  have g: "generate_java_class example_str_matches t_order_table example_args None None =
   ''import java.time.*;\<newline>\<newline>\<newline>\<newline>/**\<newline> * \<newline> */\<newline>public class TOrder {\<newline>\<newline>''
   @ ''    /**  */\<newline>    private Integer id;\<newline>\<newline>''
   @ ''    /**  */\<newline>    private String orderNo;\<newline>\<newline>''
   @ ''    /**  */\<newline>    private LocalDateTime createdAt;\<newline>\<newline>''
   @ ''    public Integer getId() {\<newline>        return this.id\<newline>    }\<newline>\<newline>''
   @ ''    public void setId(Integer id) {\<newline>        this.id = id;\<newline>    }\<newline>\<newline>''
   @ ''    public String getOrderNo() {\<newline>        return this.orderNo\<newline>    }\<newline>\<newline>''
   @ ''    public void setOrderNo(String orderNo) {\<newline>        this.orderNo = orderNo;\<newline>    }\<newline>\<newline>''
   @ ''    public LocalDateTime getCreatedAt() {\<newline>        return this.createdAt\<newline>    }\<newline>\<newline>''
   @ ''    public void setCreatedAt(LocalDateTime createdAt) {\<newline>        this.createdAt = createdAt;\<newline>    }\<newline>\<newline>''
   @ ''}\<newline>''"
    using conjunct1[OF conjunct2[OF w]] by (simp only: t_order_text)
  from parse_t_order a g h1 f m h2 ml show ?thesis
    by blast
qed








text \<open>The same name and file by evaluation, with the package guessed from the path.\<close>

lemma class_name_examples:
  "fst (resolve_class_name path_args t_order_table) = ''Order''"
  "resolve_class_name dir_args t_order_table = (''TOrder'', ''out/TOrder.java'')"
  "resolve_class_name example_args t_order_table = (''TOrder'', ''TOrder.java'')"
  "guess_package ''/w/src/main/java/com/shop/Order.java'' = Some ''com.shop''"
  by code_simp+

end
